theory Spec2Isabelle
  imports Main "HOL-Library.Word" "HOL-Library.AList"
begin

section \<open>JavaScript strings\<close>

text \<open>
  A JavaScript string is a sequence of 16-bit code units. Every string of the service
  (user ids, file names, paths, URLs, messages) is modelled as such a sequence;
  \<open>str\<close> embeds an ASCII literal of the source.
\<close>

type_synonym code_unit = "16 word"
type_synonym jsstring = "code_unit list"

definition unit_of_char :: "char \<Rightarrow> code_unit" where
  "unit_of_char c = word_of_nat (of_char c)"

definition str :: "string \<Rightarrow> jsstring" where
  "str s = map unit_of_char s"

section \<open>Exceptions\<close>

text \<open>
  Every \<^verbatim>\<open>throw\<close> of the source, and every rejection of a library call it awaits, is a
  value of \<open>exn\<close>. \<open>StoreError\<close> is an error raised by the MinIO client (with the store's
  error code), \<open>SharpError\<close> one raised by the image pipeline, \<open>TypeError\<close> the error of
  \<^verbatim>\<open>ConfigService.getOrThrow\<close> on a missing key. NestJS's
  \<^verbatim>\<open>InternalServerErrorException\<close> is built either from a message string or from a caught
  error object; the two constructors keep the two uses apart.
\<close>

datatype exn =
    URIError
  | TypeError jsstring
  | StoreError jsstring
  | SharpError jsstring
  | InternalServerErrorException jsstring
  | InternalServerErrorExceptionOf exn

fun isInternalServerError :: "exn \<Rightarrow> bool" where
  "isInternalServerError (InternalServerErrorException m) = True"
| "isInternalServerError (InternalServerErrorExceptionOf e) = True"
| "isInternalServerError e = False"

definition andThen :: "jsstring \<Rightarrow> exn + jsstring \<Rightarrow> exn + jsstring" where
  \<comment> \<open>the string built so far, followed by the rest unless the rest throws\<close>
  "andThen R r = (case r of Inl e \<Rightarrow> Inl e | Inr S \<Rightarrow> Inr (R @ S))"

section \<open>encodeURIComponent and decodeURIComponent\<close>

text \<open>
  The two built-ins, after ECMA-262 (abstract operations Encode, Decode, CodePointAt,
  UTF16SurrogatePairToCodePoint, UTF16EncodeCodePoint and ParseHexOctet). The source calls
  \<^verbatim>\<open>encodeURIComponent(filename)\<close> in \<^verbatim>\<open>uploadObject\<close> and \<^verbatim>\<open>deleteObject\<close>.
  Code units are read as numbers with \<open>unat\<close>; code points and octets are \<open>nat\<close>.
\<close>

definition uriUnescaped :: "nat \<Rightarrow> bool" where
  \<comment> \<open>ASCII letters and digits and the marks \<^verbatim>\<open>- _ . ! ~ * ' ( )\<close>\<close>
  "uriUnescaped c =
     ((48 \<le> c \<and> c \<le> 57) \<or> (65 \<le> c \<and> c \<le> 90) \<or> (97 \<le> c \<and> c \<le> 122) \<or>
      c = 45 \<or> c = 95 \<or> c = 46 \<or> c = 33 \<or> c = 126 \<or> c = 42 \<or> c = 39 \<or> c = 40 \<or> c = 41)"

definition isLeadingSurrogate :: "nat \<Rightarrow> bool" where
  "isLeadingSurrogate c = (55296 \<le> c \<and> c \<le> 56319)"

definition isTrailingSurrogate :: "nat \<Rightarrow> bool" where
  "isTrailingSurrogate c = (56320 \<le> c \<and> c \<le> 57343)"

definition UTF16SurrogatePairToCodePoint :: "nat \<Rightarrow> nat \<Rightarrow> nat" where
  "UTF16SurrogatePairToCodePoint lead trail = (lead - 55296) * 1024 + (trail - 56320) + 65536"

definition utf8Encode :: "nat \<Rightarrow> nat list" where
  "utf8Encode cp =
     (if cp < 128 then [cp]
      else if cp < 2048 then [192 + cp div 64, 128 + cp mod 64]
      else if cp < 65536 then [224 + cp div 4096, 128 + (cp div 64) mod 64, 128 + cp mod 64]
      else [240 + cp div 262144, 128 + (cp div 4096) mod 64,
            128 + (cp div 64) mod 64, 128 + cp mod 64])"

definition hexDigit :: "nat \<Rightarrow> code_unit" where
  \<comment> \<open>upper-case hexadecimal digit of a number below 16\<close>
  "hexDigit d = word_of_nat (if d < 10 then 48 + d else 55 + d)"

definition percentEncode :: "nat \<Rightarrow> jsstring" where
  "percentEncode octet = [37, hexDigit (octet div 16), hexDigit (octet mod 16)]"

fun Encode :: "jsstring \<Rightarrow> exn + jsstring" where
  "Encode [] = Inr []"
| "Encode (C # rest) =
     (if uriUnescaped (unat C) then andThen [C] (Encode rest)
      else if isTrailingSurrogate (unat C) then Inl URIError
      else if isLeadingSurrogate (unat C) then
        (case rest of
           [] \<Rightarrow> Inl URIError
         | second # rest' \<Rightarrow>
             if isTrailingSurrogate (unat second)
             then andThen
                    (concat (map percentEncode
                       (utf8Encode (UTF16SurrogatePairToCodePoint (unat C) (unat second)))))
                    (Encode rest')
             else Inl URIError)
      else andThen (concat (map percentEncode (utf8Encode (unat C)))) (Encode rest))"

definition encodeURIComponent :: "jsstring \<Rightarrow> exn + jsstring" where
  "encodeURIComponent uriComponent = Encode uriComponent"

definition ParseHexDigit :: "code_unit \<Rightarrow> nat option" where
  "ParseHexDigit h =
     (let c = unat h in
      if 48 \<le> c \<and> c \<le> 57 then Some (c - 48)
      else if 65 \<le> c \<and> c \<le> 70 then Some (c - 55)
      else if 97 \<le> c \<and> c \<le> 102 then Some (c - 87)
      else None)"

fun ParseHexOctet :: "jsstring \<Rightarrow> nat option" where
  \<comment> \<open>the octet written by the first two code units; \<open>None\<close> when fewer than two are
      left or one is not a hexadecimal digit\<close>
  "ParseHexOctet (h1 # h2 # rest) =
     (case ParseHexDigit h1 of
        None \<Rightarrow> None
      | Some d1 \<Rightarrow> (case ParseHexDigit h2 of None \<Rightarrow> None | Some d2 \<Rightarrow> Some (16 * d1 + d2)))"
| "ParseHexOctet rest = None"

definition leadingOnes :: "nat \<Rightarrow> nat" where
  \<comment> \<open>the number of leading 1 bits of an octet (5 stands for five or more)\<close>
  "leadingOnes B =
     (if B < 128 then 0 else if B < 192 then 1 else if B < 224 then 2
      else if B < 240 then 3 else if B < 248 then 4 else 5)"

fun continuationBytes :: "nat \<Rightarrow> jsstring \<Rightarrow> nat list option" where
  \<comment> \<open>the next \<open>j\<close> escapes \<^verbatim>\<open>%XX\<close> of the string, as octets\<close>
  "continuationBytes 0 s = Some []"
| "continuationBytes (Suc j) s =
     (case s of
        [] \<Rightarrow> None
      | p # s' \<Rightarrow>
          if p \<noteq> 37 then None
          else (case ParseHexOctet s' of
                  None \<Rightarrow> None
                | Some b \<Rightarrow> map_option ((#) b) (continuationBytes j (drop 2 s'))))"

definition isContinuation :: "nat \<Rightarrow> bool" where
  "isContinuation b = (128 \<le> b \<and> b \<le> 191)"

fun utf8Decode :: "nat list \<Rightarrow> nat option" where
  \<comment> \<open>the code point of a well-formed multi-octet UTF-8 sequence: continuation octets
      are \<^verbatim>\<open>10xxxxxx\<close>, no overlong form, no surrogate, nothing above U+10FFFF\<close>
  "utf8Decode [b1, b2] =
     (let V = (b1 - 192) * 64 + (b2 - 128) in
      if isContinuation b2 \<and> 128 \<le> V then Some V else None)"
| "utf8Decode [b1, b2, b3] =
     (let V = (b1 - 224) * 4096 + (b2 - 128) * 64 + (b3 - 128) in
      if isContinuation b2 \<and> isContinuation b3 \<and> 2048 \<le> V \<and> \<not> (55296 \<le> V \<and> V \<le> 57343)
      then Some V else None)"
| "utf8Decode [b1, b2, b3, b4] =
     (let V = (b1 - 240) * 262144 + (b2 - 128) * 4096 + (b3 - 128) * 64 + (b4 - 128) in
      if isContinuation b2 \<and> isContinuation b3 \<and> isContinuation b4 \<and> 65536 \<le> V \<and> V \<le> 1114111
      then Some V else None)"
| "utf8Decode octets = None"

definition UTF16EncodeCodePoint :: "nat \<Rightarrow> jsstring" where
  "UTF16EncodeCodePoint cp =
     (if cp \<le> 65535 then [word_of_nat cp]
      else [word_of_nat ((cp - 65536) div 1024 + 55296),
            word_of_nat ((cp - 65536) mod 1024 + 56320)])"

function Decode :: "jsstring \<Rightarrow> exn + jsstring" where
  "Decode [] = Inr []"
| "Decode (C # rest) =
     (if C \<noteq> 37 then andThen [C] (Decode rest)
      else
        (case ParseHexOctet rest of
           None \<Rightarrow> Inl URIError
         | Some B \<Rightarrow>
             (let n = leadingOnes B in
              if n = 0 then andThen [word_of_nat B] (Decode (drop 2 rest))
              else if n = 1 \<or> 4 < n then Inl URIError
              else
                (case continuationBytes (n - 1) (drop 2 rest) of
                   None \<Rightarrow> Inl URIError
                 | Some Octets \<Rightarrow>
                     (case utf8Decode (B # Octets) of
                        None \<Rightarrow> Inl URIError
                      | Some V \<Rightarrow>
                          andThen (UTF16EncodeCodePoint V)
                            (Decode (drop (2 + 3 * (n - 1)) rest)))))))"
  by pat_completeness auto
termination
  by (relation "measure length") auto

definition decodeURIComponent :: "jsstring \<Rightarrow> exn + jsstring" where
  "decodeURIComponent encodedURIComponent = Decode encodedURIComponent"

fun IsStringWellFormedUnicode :: "jsstring \<Rightarrow> bool" where
  \<comment> \<open>no surrogate stands alone: every leading surrogate is followed by a trailing one,
      and every trailing one follows a leading one\<close>
  "IsStringWellFormedUnicode [] = True"
| "IsStringWellFormedUnicode (C # rest) =
     (if isLeadingSurrogate (unat C) then
        (case rest of
           [] \<Rightarrow> False
         | second # rest' \<Rightarrow> isTrailingSurrogate (unat second) \<and> IsStringWellFormedUnicode rest')
      else if isTrailingSurrogate (unat C) then False
      else IsStringWellFormedUnicode rest)"

section \<open>Configuration, logging and the object store's client\<close>

text \<open>
  The three configuration keys the service reads. A key that is not configured is \<open>None\<close>,
  and \<^verbatim>\<open>getOrThrow\<close> raises a \<open>TypeError\<close> for it.
\<close>

record Config =
  STORAGE_BUCKET :: "jsstring option"
  STORAGE_SKIP_BUCKET_CHECK :: "bool option"
  STORAGE_URL :: "jsstring option"

definition getOrThrow :: "string \<Rightarrow> 'a option \<Rightarrow> exn + 'a" where
  "getOrThrow propertyPath v =
     (case v of
        None \<Rightarrow> Inl (TypeError (str ''Configuration key '' @ [34] @ str propertyPath @ [34]
                                  @ str '' does not exist''))
      | Some x \<Rightarrow> Inr x)"

datatype level = LOG | WARN | ERROR

datatype log_entry = Entry level jsstring "exn option"

type_synonym buffer = "8 word list"
type_synonym metadata = "(jsstring \<times> jsstring) list"

record BucketItem =
  name :: jsstring
  size :: nat

text \<open>
  The MinIO client is a library outside the repository: the service is defined over any
  client, given as the record of the eight operations the source calls. Each takes the
  store's state and returns the value its promise resolves to, or the error it rejects
  with, and the next state. \<open>client_statObject\<close> returns whether the resolved value is truthy
  (the source only tests it), \<open>client_listObjectsV2\<close> the items its stream yields, or the
  error the stream ends with.
\<close>

record 'st MinioClient =
  client_bucketExists :: "jsstring \<Rightarrow> 'st \<Rightarrow> (exn + bool) \<times> 'st"
  client_makeBucket :: "jsstring \<Rightarrow> 'st \<Rightarrow> (exn + unit) \<times> 'st"
  client_setBucketPolicy :: "jsstring \<Rightarrow> jsstring \<Rightarrow> 'st \<Rightarrow> (exn + unit) \<times> 'st"
  client_putObject :: "jsstring \<Rightarrow> jsstring \<Rightarrow> buffer \<Rightarrow> metadata \<Rightarrow> 'st \<Rightarrow> (exn + unit) \<times> 'st"
  client_statObject :: "jsstring \<Rightarrow> jsstring \<Rightarrow> 'st \<Rightarrow> (exn + bool) \<times> 'st"
  client_removeObject :: "jsstring \<Rightarrow> jsstring \<Rightarrow> 'st \<Rightarrow> (exn + unit) \<times> 'st"
  client_listObjectsV2 :: "jsstring \<Rightarrow> jsstring \<Rightarrow> bool \<Rightarrow> 'st \<Rightarrow> (exn + BucketItem list) \<times> 'st"
  client_removeObjects :: "jsstring \<Rightarrow> jsstring list \<Rightarrow> 'st \<Rightarrow> (exn + unit) \<times> 'st"

text \<open>
  What a run of the service can be observed to do: the state of the store, the calls made
  to the client in order, and the lines logged.
\<close>

datatype call =
    BucketExists jsstring
  | MakeBucket jsstring
  | SetBucketPolicy jsstring jsstring
  | PutObject jsstring jsstring buffer metadata
  | StatObject jsstring jsstring
  | RemoveObject jsstring jsstring
  | ListObjectsV2 jsstring jsstring bool
  | RemoveObjects jsstring "jsstring list"

record 'st world =
  store :: 'st
  trace :: "call list"
  logs :: "log_entry list"

definition invoke ::
  "call \<Rightarrow> ('st \<Rightarrow> (exn + 'a) \<times> 'st) \<Rightarrow> 'st world \<Rightarrow> (exn + 'a) \<times> 'st world" where
  \<comment> \<open>one awaited call of the client, recorded in the trace\<close>
  "invoke c f s =
     (case f (store s) of (r, st) \<Rightarrow> (r, s\<lparr>store := st, trace := trace s @ [c]\<rparr>))"

definition logger_log :: "jsstring \<Rightarrow> 'st world \<Rightarrow> 'st world" where
  "logger_log message s = s\<lparr>logs := logs s @ [Entry LOG message None]\<rparr>"

definition logger_warn :: "jsstring \<Rightarrow> 'st world \<Rightarrow> 'st world" where
  "logger_warn message s = s\<lparr>logs := logs s @ [Entry WARN message None]\<rparr>"

definition logger_error :: "jsstring \<Rightarrow> exn \<Rightarrow> 'st world \<Rightarrow> 'st world" where
  "logger_error message error s = s\<lparr>logs := logs s @ [Entry ERROR message (Some error)]\<rparr>"

section \<open>The bucket policy\<close>

datatype json = JString string | JArray "json list" | JObject "(string \<times> json) list"

definition QuoteJSONString :: "string \<Rightarrow> jsstring" where
  \<comment> \<open>a string between double quotes, with the double quote and the backslash escaped
      (the policy holds no control character)\<close>
  "QuoteJSONString v =
     [34] @ concat (map (\<lambda>c. if c = CHR 0x22 then [92, 34]
                               else if c = CHR 0x5C then [92, 92]
                               else [unit_of_char c]) v) @ [34]"

fun stringify :: "json \<Rightarrow> jsstring"
  and elements :: "json list \<Rightarrow> jsstring"
  and members :: "(string \<times> json) list \<Rightarrow> jsstring" where
  "stringify (JString v) = QuoteJSONString v"
| "stringify (JArray xs) = [91] @ elements xs @ [93]"
| "stringify (JObject kvs) = [123] @ members kvs @ [125]"
| "elements [] = []"
| "elements [x] = stringify x"
| "elements (x # y # xs) = stringify x @ [44] @ elements (y # xs)"
| "members [] = []"
| "members [(k, v)] = QuoteJSONString k @ [58] @ stringify v"
| "members ((k, v) # m # ms) = QuoteJSONString k @ [58] @ stringify v @ [44] @ members (m # ms)"

definition PUBLIC_ACCESS_POLICY :: json where
  "PUBLIC_ACCESS_POLICY =
     JObject
       [(''Version'', JString ''2012-10-17''),
        (''Statement'',
         JArray
           [JObject
              [(''Sid'', JString ''PublicAccess''),
               (''Effect'', JString ''Allow''),
               (''Action'', JArray [JString ''s3:GetObject'']),
               (''Principal'', JObject [(''AWS'', JArray [JString ''*''])]),
               (''Resource'',
                JArray
                  [JString ''arn:aws:s3:::{{bucketName}}/*/pictures/*'',
                   JString ''arn:aws:s3:::{{bucketName}}/*/previews/*'',
                   JString ''arn:aws:s3:::{{bucketName}}/*/resumes/*''])]])]"

text \<open>
  \<^verbatim>\<open>String.prototype.replace\<close> with the global pattern \<^verbatim>\<open>/{{bucketName}}/g\<close>, which matches
  the fourteen characters literally and has no capture group. The replacement is a
  string, so JavaScript expands the dollar patterns in it (GetSubstitution): \<^verbatim>\<open>$$\<close> is a
  dollar, \<^verbatim>\<open>$&\<close> the match, \<^verbatim>\<open>$`\<close> the text before the match and \<^verbatim>\<open>$'\<close> the text after
  it; a dollar before anything else stands for itself.
\<close>

fun GetSubstitution :: "jsstring \<Rightarrow> jsstring \<Rightarrow> jsstring \<Rightarrow> jsstring \<Rightarrow> jsstring" where
  "GetSubstitution matched before after (c # d # template) =
     (if c = 36 \<and> d = 36 then 36 # GetSubstitution matched before after template
      else if c = 36 \<and> d = 38 then matched @ GetSubstitution matched before after template
      else if c = 36 \<and> d = 96 then before @ GetSubstitution matched before after template
      else if c = 36 \<and> d = 39 then after @ GetSubstitution matched before after template
      else c # GetSubstitution matched before after (d # template))"
| "GetSubstitution matched before after template = template"

function replaceAll :: "jsstring \<Rightarrow> jsstring \<Rightarrow> jsstring \<Rightarrow> jsstring \<Rightarrow> jsstring" where
  \<comment> \<open>\<open>before\<close> is the part of the subject already scanned, \<open>subject\<close> the rest\<close>
  "replaceAll pattern replacement before [] = []"
| "replaceAll pattern replacement before (c # cs) =
     (if pattern \<noteq> [] \<and> take (length pattern) (c # cs) = pattern
      then GetSubstitution pattern before (drop (length pattern) (c # cs)) replacement
           @ replaceAll pattern replacement (before @ pattern) (drop (length pattern) (c # cs))
      else c # replaceAll pattern replacement (before @ [c]) cs)"
  by pat_completeness auto
termination
  by (relation "measure (\<lambda>(pattern, replacement, before, subject). length subject)") auto

definition bucketPolicy :: "jsstring \<Rightarrow> jsstring" where
  \<comment> \<open>\<^verbatim>\<open>JSON.stringify(PUBLIC_ACCESS_POLICY).replace(/{{bucketName}}/g, this.bucketName)\<close>\<close>
  "bucketPolicy bucketName =
     replaceAll (str ''{{bucketName}}'') bucketName [] (stringify PUBLIC_ACCESS_POLICY)"

section \<open>The image pipeline\<close>

text \<open>
  \<^verbatim>\<open>sharp(buffer).resize({...}).jpeg({...})\<close> builds a description of the pipeline;
  \<^verbatim>\<open>toBuffer()\<close> runs it. The description is modelled as the source builds it. Running it is
  the library's work: the service takes \<open>toBuffer\<close> as a parameter.
\<close>

datatype fit = Cover | Contain | Fill | Inside | Outside

record resize_options =
  width :: nat
  height :: nat
  fit :: fit

record jpeg_options =
  quality :: nat

record sharp_pipeline =
  input :: buffer
  resizeOptions :: "resize_options option"
  jpegOptions :: "jpeg_options option"

definition sharp :: "buffer \<Rightarrow> sharp_pipeline" where
  "sharp buffer = \<lparr>input = buffer, resizeOptions = None, jpegOptions = None\<rparr>"

definition resize :: "resize_options \<Rightarrow> sharp_pipeline \<Rightarrow> sharp_pipeline" where
  "resize options p = p\<lparr>resizeOptions := Some options\<rparr>"

definition jpeg :: "jpeg_options \<Rightarrow> sharp_pipeline \<Rightarrow> sharp_pipeline" where
  "jpeg options p = p\<lparr>jpegOptions := Some options\<rparr>"

section \<open>StorageService\<close>

datatype UploadType = pictures | previews | resumes

fun UploadType_string :: "UploadType \<Rightarrow> jsstring" where
  "UploadType_string pictures = str ''pictures''"
| "UploadType_string previews = str ''previews''"
| "UploadType_string resumes = str ''resumes''"

text \<open>
  The fields of the service object that \<^verbatim>\<open>onModuleInit\<close> sets. \<^verbatim>\<open>this.client\<close> is the
  client the operations take as their first argument.
\<close>

record StorageService =
  bucketName :: jsstring

type_synonym 'a result = "exn + 'a"

subsection \<open>onModuleInit\<close>

definition onModuleInit_create ::
  "'st MinioClient \<Rightarrow> jsstring \<Rightarrow> 'st world \<Rightarrow> unit result \<times> 'st world" where
  \<comment> \<open>the \<^verbatim>\<open>else\<close> branch: the bucket does not exist\<close>
  "onModuleInit_create client bucket s =
     (let s1 = logger_log (str ''Bucket '' @ bucket @ str '' does not exist. Creating it...'') s;
          policy = bucketPolicy bucket
      in case invoke (MakeBucket bucket) (client_makeBucket client bucket) s1 of
           (Inl error, s2) \<Rightarrow>
             (Inl (InternalServerErrorException
                     (str ''There was an error while creating the storage bucket.'')),
              logger_error (str ''Error creating the storage bucket:'') error s2)
         | (Inr u, s2) \<Rightarrow>
             (let s3 = logger_log (str ''Bucket '' @ bucket @ str '' created successfully.'') s2
              in case invoke (SetBucketPolicy bucket policy)
                        (client_setBucketPolicy client bucket policy) s3 of
                   (Inl error, s4) \<Rightarrow>
                     (Inl (InternalServerErrorException
                             (str ''There was an error while applying the policy to the storage bucket.'')),
                      logger_error (str ''Error applying the policy to the storage bucket:'') error s4)
                 | (Inr u', s4) \<Rightarrow>
                     (Inr (),
                      logger_log
                        (str ''A new storage bucket has been created and the policy has been applied successfully.'')
                        (logger_log
                           (str ''Policy for bucket '' @ bucket @ str '' applied successfully.'') s4))))"

definition onModuleInit_try ::
  "'st MinioClient \<Rightarrow> jsstring \<Rightarrow> 'st world \<Rightarrow> unit result \<times> 'st world" where
  \<comment> \<open>the body of the outer \<^verbatim>\<open>try\<close>\<close>
  "onModuleInit_try client bucket s =
     (let s1 = logger_log (str ''Checking if bucket '' @ bucket @ str '' exists...'') s
      in case invoke (BucketExists bucket) (client_bucketExists client bucket) s1 of
           (Inl error, s2) \<Rightarrow> (Inl error, s2)
         | (Inr bucketExists, s2) \<Rightarrow>
             if bucketExists
             then (Inr (),
                   logger_log (str ''Successfully connected to the storage service.'')
                     (logger_log (str ''Bucket '' @ bucket @ str '' already exists.'') s2))
             else onModuleInit_create client bucket s2)"

definition onModuleInit ::
  "'st MinioClient \<Rightarrow> Config \<Rightarrow> 'st world \<Rightarrow> StorageService result \<times> 'st world" where
  "onModuleInit client configService s =
     (case getOrThrow ''STORAGE_BUCKET'' (STORAGE_BUCKET configService) of
        Inl e \<Rightarrow> (Inl e, s)
      | Inr bucket \<Rightarrow>
          (case getOrThrow ''STORAGE_SKIP_BUCKET_CHECK'' (STORAGE_SKIP_BUCKET_CHECK configService) of
             Inl e \<Rightarrow> (Inl e, s)
           | Inr skipBucketCheck \<Rightarrow>
               if skipBucketCheck
               then (Inr \<lparr>bucketName = bucket\<rparr>,
                     logger_warn
                       (str ''Make sure that the following paths are publicly accessible: `/{pictures,previews,resumes}/*`'')
                       (logger_warn
                          (str ''Skipping the verification of whether the storage bucket exists.'') s))
               else
                 (case onModuleInit_try client bucket s of
                    (Inl error, s') \<Rightarrow>
                      (Inl (InternalServerErrorExceptionOf error),
                       logger_error (str ''Error checking the storage bucket:'') error s')
                  | (Inr u, s') \<Rightarrow> (Inr \<lparr>bucketName = bucket\<rparr>, s'))))"

subsection \<open>bucketExists\<close>

definition bucketExists_try ::
  "'st MinioClient \<Rightarrow> StorageService \<Rightarrow> 'st world \<Rightarrow> unit result \<times> 'st world" where
  "bucketExists_try client this s =
     (case invoke (BucketExists (bucketName this)) (client_bucketExists client (bucketName this)) s of
        (Inl error, s1) \<Rightarrow> (Inl error, s1)
      | (Inr exists, s1) \<Rightarrow>
          (let s2 = logger_log (str ''Bucket '' @ bucketName this @ str '' exists: ''
                                @ (if exists then str ''true'' else str ''false'')) s1
           in if \<not> exists
              then (Inl (InternalServerErrorException
                           (str ''There was an error while checking if the storage bucket exists.'')),
                    s2)
              else (Inr (), s2)))"

definition bucketExists ::
  "'st MinioClient \<Rightarrow> StorageService \<Rightarrow> 'st world \<Rightarrow> unit result \<times> 'st world" where
  "bucketExists client this s =
     (case bucketExists_try client this s of
        (Inl error, s') \<Rightarrow> (Inl error, logger_error (str ''Error checking if bucket exists:'') error s')
      | (Inr u, s') \<Rightarrow> (Inr (), s'))"

subsection \<open>uploadObject\<close>

text \<open>
  The default value of \<^verbatim>\<open>filename\<close>, a fresh id from \<^verbatim>\<open>createId()\<close>, is the caller's to
  supply here: \<open>filename\<close> is the name the body runs with.
\<close>

definition uploadObject_resize ::
  "(sharp_pipeline \<Rightarrow> buffer result) \<Rightarrow> jsstring \<Rightarrow> buffer \<Rightarrow> buffer result" where
  \<comment> \<open>the first statement of the \<^verbatim>\<open>try\<close>: the buffer the upload goes on with\<close>
  "uploadObject_resize toBuffer extension buffer =
     (if extension = str ''jpg''
      then toBuffer (jpeg \<lparr>quality = 80\<rparr>
                       (resize \<lparr>width = 600, height = 600, fit = Outside\<rparr> (sharp buffer)))
      else Inr buffer)"

definition uploadObject_try ::
  "'st MinioClient \<Rightarrow> (sharp_pipeline \<Rightarrow> buffer result) \<Rightarrow> StorageService \<Rightarrow> jsstring \<Rightarrow> jsstring
    \<Rightarrow> jsstring \<Rightarrow> metadata \<Rightarrow> buffer \<Rightarrow> 'st world \<Rightarrow> jsstring result \<times> 'st world" where
  \<comment> \<open>the body of the \<^verbatim>\<open>try\<close>\<close>
  "uploadObject_try client toBuffer this extension filepath url metadata buffer s =
     (case uploadObject_resize toBuffer extension buffer of
        Inl error \<Rightarrow> (Inl error, s)
      | Inr buffer' \<Rightarrow>
          (let s1 = logger_log (str ''Uploading object to Minio: '' @ filepath) s
           in case invoke (PutObject (bucketName this) filepath buffer' metadata)
                     (client_putObject client (bucketName this) filepath buffer' metadata) s1 of
                (Inl error, s2) \<Rightarrow> (Inl error, s2)
              | (Inr u, s2) \<Rightarrow>
                  (let s3 = logger_log (str ''Successfully uploaded object to Minio: '' @ filepath) s2
                   in case invoke (StatObject (bucketName this) filepath)
                             (client_statObject client (bucketName this) filepath) s3 of
                        (Inl error, s4) \<Rightarrow> (Inl error, s4)
                      | (Inr objectExists, s4) \<Rightarrow>
                          (Inr url,
                           if objectExists
                           then logger_log (str ''Object exists in Minio: '' @ filepath) s4
                           else logger_warn (str ''Object does not exist in Minio: '' @ filepath) s4))))"

definition uploadObject ::
  "'st MinioClient \<Rightarrow> (sharp_pipeline \<Rightarrow> buffer result) \<Rightarrow> Config \<Rightarrow> StorageService \<Rightarrow> jsstring
    \<Rightarrow> UploadType \<Rightarrow> buffer \<Rightarrow> jsstring \<Rightarrow> 'st world \<Rightarrow> jsstring result \<times> 'st world" where
  "uploadObject client toBuffer configService this userId type buffer filename s =
     (let extension = (if type = resumes then str ''pdf'' else str ''jpg'')
      in case getOrThrow ''STORAGE_URL'' (STORAGE_URL configService) of
           Inl e \<Rightarrow> (Inl e, s)
         | Inr storageUrl \<Rightarrow>
             (case encodeURIComponent filename of
                Inl e \<Rightarrow> (Inl e, s)
              | Inr encodedFilename \<Rightarrow>
                  (let filepath = userId @ str ''/'' @ UploadType_string type @ str ''/''
                                  @ encodedFilename @ str ''.'' @ extension;
                       url = storageUrl @ str ''/'' @ filepath;
                       metadata =
                         (if extension = str ''jpg''
                          then [(str ''Content-Type'', str ''image/jpeg'')]
                          else [(str ''Content-Type'', str ''application/pdf''),
                                (str ''Content-Disposition'',
                                 str ''attachment; filename*=UTF-8'' @ [39, 39]
                                 @ encodedFilename @ str ''.'' @ extension)])
                   in case uploadObject_try client toBuffer this extension filepath url metadata
                             buffer s of
                        (Inl error, s') \<Rightarrow>
                          (Inl (InternalServerErrorException
                                  (str ''There was an error while uploading the file.'')),
                           logger_error (str ''Error uploading object to Minio:'') error s')
                      | (Inr url', s') \<Rightarrow> (Inr url', s'))))"

subsection \<open>deleteObject\<close>

definition deleteObject ::
  "'st MinioClient \<Rightarrow> StorageService \<Rightarrow> jsstring \<Rightarrow> UploadType \<Rightarrow> jsstring \<Rightarrow> 'st world
    \<Rightarrow> unit result \<times> 'st world" where
  "deleteObject client this userId type filename s =
     (let extension = (if type = resumes then str ''pdf'' else str ''jpg'')
      in case encodeURIComponent filename of
           Inl e \<Rightarrow> (Inl e, s)
         | Inr encodedFilename \<Rightarrow>
             (let path = userId @ str ''/'' @ UploadType_string type @ str ''/''
                         @ encodedFilename @ str ''.'' @ extension;
                  s1 = logger_log (str ''Deleting object from Minio: '' @ path) s
              in case invoke (RemoveObject (bucketName this) path)
                        (client_removeObject client (bucketName this) path) s1 of
                   (Inl error, s2) \<Rightarrow>
                     (Inl (InternalServerErrorException
                             (str ''There was an error while deleting the document at the specified path: ''
                              @ path @ str ''.'')),
                      logger_error
                        (str ''Error deleting the document at the specified path: '' @ path) error s2)
                 | (Inr u, s2) \<Rightarrow>
                     (Inr (), logger_log (str ''Successfully deleted object from Minio: '' @ path) s2)))"

subsection \<open>deleteFolder\<close>

text \<open>
  The method awaits the listing and then the removal; other requests of the process can
  run in between. The two phases are defined apart, so that a step of another writer can
  be placed between them. \<open>deleteFolder\<close> is the method run without interference.
\<close>

definition deleteFolder_list ::
  "'st MinioClient \<Rightarrow> StorageService \<Rightarrow> jsstring \<Rightarrow> 'st world \<Rightarrow> jsstring list result \<times> 'st world" where
  \<comment> \<open>the \<^verbatim>\<open>for await\<close> loop over the stream, outside of any \<^verbatim>\<open>try\<close>\<close>
  "deleteFolder_list client this prefix s =
     (case invoke (ListObjectsV2 (bucketName this) prefix True)
             (client_listObjectsV2 client (bucketName this) prefix True) s of
        (Inl error, s1) \<Rightarrow> (Inl error, s1)
      | (Inr objectsStream, s1) \<Rightarrow>
          (Inr (fold (\<lambda>object objectsList. objectsList @ [name object]) objectsStream []), s1))"

definition deleteFolder_remove ::
  "'st MinioClient \<Rightarrow> StorageService \<Rightarrow> jsstring \<Rightarrow> jsstring list \<Rightarrow> 'st world
    \<Rightarrow> unit result \<times> 'st world" where
  \<comment> \<open>the \<^verbatim>\<open>try\<close> and its \<^verbatim>\<open>catch\<close>\<close>
  "deleteFolder_remove client this prefix objectsList s =
     (let s1 = logger_log (str ''Deleting folder from Minio with prefix: '' @ prefix) s
      in case invoke (RemoveObjects (bucketName this) objectsList)
                (client_removeObjects client (bucketName this) objectsList) s1 of
           (Inl error, s2) \<Rightarrow>
             (Inl (InternalServerErrorException
                     (str ''There was an error while deleting the folder at the specified path: ''
                      @ bucketName this @ str ''/'' @ prefix @ str ''.'')),
              logger_error
                (str ''Error deleting the folder at the specified path: ''
                 @ bucketName this @ str ''/'' @ prefix) error s2)
         | (Inr u, s2) \<Rightarrow>
             (Inr (),
              logger_log (str ''Successfully deleted folder from Minio with prefix: '' @ prefix) s2))"

definition deleteFolder ::
  "'st MinioClient \<Rightarrow> StorageService \<Rightarrow> jsstring \<Rightarrow> 'st world \<Rightarrow> unit result \<times> 'st world" where
  "deleteFolder client this prefix s =
     (case deleteFolder_list client this prefix s of
        (Inl error, s1) \<Rightarrow> (Inl error, s1)
      | (Inr objectsList, s1) \<Rightarrow> deleteFolder_remove client this prefix objectsList s1)"

section \<open>Reference collaborators\<close>

text \<open>
  The service is defined over any client and any image library. To run it on concrete
  inputs, this section gives one of each: an object store held in memory, and an executor
  of image pipelines that follows the image library's documented resize rule.
\<close>

subsection \<open>An object store in memory\<close>

text \<open>
  Buckets, their policies, and objects keyed by bucket and object name. The operations
  follow the S3 interface the MinIO client speaks: an operation on a bucket that does not
  exist fails with \<^verbatim>\<open>NoSuchBucket\<close>; \<^verbatim>\<open>statObject\<close> of a missing object fails with
  \<^verbatim>\<open>NotFound\<close>; removing an object that is not there succeeds and changes nothing.
\<close>

record MemoryStore =
  buckets :: "jsstring list"
  policies :: "(jsstring \<times> jsstring) list"
  objects :: "((jsstring \<times> jsstring) \<times> buffer \<times> metadata) list"

definition isPrefixOf :: "jsstring \<Rightarrow> jsstring \<Rightarrow> bool" where
  "isPrefixOf prefix key = (take (length prefix) key = prefix)"

definition noSuchBucket :: exn where
  "noSuchBucket = StoreError (str ''NoSuchBucket'')"

definition memory_bucketExists :: "jsstring \<Rightarrow> MemoryStore \<Rightarrow> bool result \<times> MemoryStore" where
  "memory_bucketExists b st = (Inr (b \<in> set (buckets st)), st)"

definition memory_makeBucket :: "jsstring \<Rightarrow> MemoryStore \<Rightarrow> unit result \<times> MemoryStore" where
  "memory_makeBucket b st =
     (if b \<in> set (buckets st) then (Inl (StoreError (str ''BucketAlreadyOwnedByYou'')), st)
      else (Inr (), st\<lparr>buckets := b # buckets st\<rparr>))"

definition memory_setBucketPolicy ::
  "jsstring \<Rightarrow> jsstring \<Rightarrow> MemoryStore \<Rightarrow> unit result \<times> MemoryStore" where
  "memory_setBucketPolicy b policy st =
     (if b \<in> set (buckets st) then (Inr (), st\<lparr>policies := AList.update b policy (policies st)\<rparr>)
      else (Inl noSuchBucket, st))"

definition memory_putObject ::
  "jsstring \<Rightarrow> jsstring \<Rightarrow> buffer \<Rightarrow> metadata \<Rightarrow> MemoryStore \<Rightarrow> unit result \<times> MemoryStore" where
  "memory_putObject b key data meta st =
     (if b \<in> set (buckets st)
      then (Inr (), st\<lparr>objects := AList.update (b, key) (data, meta) (objects st)\<rparr>)
      else (Inl noSuchBucket, st))"

definition memory_statObject :: "jsstring \<Rightarrow> jsstring \<Rightarrow> MemoryStore \<Rightarrow> bool result \<times> MemoryStore" where
  "memory_statObject b key st =
     (case map_of (objects st) (b, key) of
        None \<Rightarrow> (Inl (StoreError (str ''NotFound'')), st)
      | Some object \<Rightarrow> (Inr True, st))"

definition memory_removeObject :: "jsstring \<Rightarrow> jsstring \<Rightarrow> MemoryStore \<Rightarrow> unit result \<times> MemoryStore" where
  "memory_removeObject b key st =
     (if b \<in> set (buckets st) then (Inr (), st\<lparr>objects := AList.delete (b, key) (objects st)\<rparr>)
      else (Inl noSuchBucket, st))"

definition memory_listObjectsV2 ::
  "jsstring \<Rightarrow> jsstring \<Rightarrow> bool \<Rightarrow> MemoryStore \<Rightarrow> BucketItem list result \<times> MemoryStore" where
  \<comment> \<open>the recursive listing, which is the one the service asks for\<close>
  "memory_listObjectsV2 b prefix recursive st =
     (if b \<in> set (buckets st)
      then (Inr (map (\<lambda>(k, data, meta). \<lparr>name = snd k, size = length data\<rparr>)
                   (filter (\<lambda>(k, object). fst k = b \<and> isPrefixOf prefix (snd k)) (objects st))),
            st)
      else (Inl noSuchBucket, st))"

definition memory_removeObjects ::
  "jsstring \<Rightarrow> jsstring list \<Rightarrow> MemoryStore \<Rightarrow> unit result \<times> MemoryStore" where
  "memory_removeObjects b keys st =
     (if b \<in> set (buckets st)
      then (Inr (),
            st\<lparr>objects := filter (\<lambda>(k, object). \<not> (fst k = b \<and> snd k \<in> set keys)) (objects st)\<rparr>)
      else (Inl noSuchBucket, st))"

definition memoryClient :: "MemoryStore MinioClient" where
  "memoryClient =
     \<lparr>client_bucketExists = memory_bucketExists,
      client_makeBucket = memory_makeBucket,
      client_setBucketPolicy = memory_setBucketPolicy,
      client_putObject = memory_putObject,
      client_statObject = memory_statObject,
      client_removeObject = memory_removeObject,
      client_listObjectsV2 = memory_listObjectsV2,
      client_removeObjects = memory_removeObjects\<rparr>"

definition start :: "'st \<Rightarrow> 'st world" where
  \<comment> \<open>a run that begins on the given store, with nothing called or logged yet\<close>
  "start st = \<lparr>store = st, trace = [], logs = []\<rparr>"

subsection \<open>An executor of image pipelines\<close>

text \<open>
  The image library documents \<^verbatim>\<open>fit: outside\<close> as: preserving aspect ratio, resize the
  image to be as small as possible while ensuring its dimensions are greater than or
  equal to both those specified; \<^verbatim>\<open>fit: inside\<close> as: as large as possible while ensuring
  its dimensions are less than or equal to both those specified; \<^verbatim>\<open>cover\<close>,
  \<^verbatim>\<open>contain\<close> and \<^verbatim>\<open>fill\<close> produce exactly the given width and height. Images are enlarged
  as well as reduced unless \<^verbatim>\<open>withoutEnlargement\<close> is set, which the source does not do.
  An image is modelled by its dimensions; the scaled dimension is rounded to the nearest
  pixel. Decoding and encoding are parameters of the executor.
\<close>

record image =
  imageWidth :: nat
  imageHeight :: nat

record codec =
  decode :: "buffer \<Rightarrow> image result"
  encode :: "jpeg_options option \<Rightarrow> image \<Rightarrow> buffer"

definition roundDiv :: "nat \<Rightarrow> nat \<Rightarrow> nat" where
  \<comment> \<open>\<open>a / b\<close> rounded to the nearest number\<close>
  "roundDiv a b = (2 * a + b) div (2 * b)"

definition resizeImage :: "resize_options \<Rightarrow> image \<Rightarrow> image" where
  "resizeImage options img =
     (let w = imageWidth img; h = imageHeight img; tw = width options; th = height options
      in case fit options of
           Outside \<Rightarrow>
             \<comment> \<open>the smaller of the two shrink factors \<open>w / tw\<close> and \<open>h / th\<close>, for both axes\<close>
             if w * th < h * tw
             then \<lparr>imageWidth = tw, imageHeight = roundDiv (h * tw) w\<rparr>
             else \<lparr>imageWidth = roundDiv (w * th) h, imageHeight = th\<rparr>
         | Inside \<Rightarrow>
             \<comment> \<open>the larger of the two shrink factors, for both axes\<close>
             if h * tw < w * th
             then \<lparr>imageWidth = tw, imageHeight = roundDiv (h * tw) w\<rparr>
             else \<lparr>imageWidth = roundDiv (w * th) h, imageHeight = th\<rparr>
         | Cover \<Rightarrow> \<lparr>imageWidth = tw, imageHeight = th\<rparr>
         | Contain \<Rightarrow> \<lparr>imageWidth = tw, imageHeight = th\<rparr>
         | Fill \<Rightarrow> \<lparr>imageWidth = tw, imageHeight = th\<rparr>)"

definition sharp_toBuffer :: "codec \<Rightarrow> sharp_pipeline \<Rightarrow> buffer result" where
  "sharp_toBuffer c p =
     (case decode c (input p) of
        Inl error \<Rightarrow> Inl error
      | Inr img \<Rightarrow>
          Inr (encode c (jpegOptions p)
                 (case resizeOptions p of None \<Rightarrow> img | Some options \<Rightarrow> resizeImage options img)))"

text \<open>
  A codec for running the executor: a buffer of four octets is an image, its width and
  its height as two big-endian 16-bit numbers; any other buffer is not an image.
\<close>

definition headerDecode :: "buffer \<Rightarrow> image result" where
  "headerDecode buffer =
     (case buffer of
        [w1, w0, h1, h0] \<Rightarrow>
          Inr \<lparr>imageWidth = unat w1 * 256 + unat w0, imageHeight = unat h1 * 256 + unat h0\<rparr>
      | _ \<Rightarrow> Inl (SharpError (str ''Input buffer contains unsupported image format'')))"

definition headerEncode :: "jpeg_options option \<Rightarrow> image \<Rightarrow> buffer" where
  "headerEncode options img =
     [word_of_nat (imageWidth img div 256), word_of_nat (imageWidth img mod 256),
      word_of_nat (imageHeight img div 256), word_of_nat (imageHeight img mod 256)]"

definition headerCodec :: codec where
  "headerCodec = \<lparr>decode = headerDecode, encode = headerEncode\<rparr>"

section \<open>Observations and examples\<close>

text \<open>
  Notions the theorems are stated with. None of them is part of the service.
\<close>

fun callPath :: "call \<Rightarrow> jsstring option" where
  \<comment> \<open>the object name a call of the client is about\<close>
  "callPath (PutObject b p d m) = Some p"
| "callPath (StatObject b p) = Some p"
| "callPath (RemoveObject b p) = Some p"
| "callPath c = None"

definition newCalls :: "'st world \<Rightarrow> 'st world \<Rightarrow> call list" where
  \<comment> \<open>the calls a run from \<open>s\<close> to \<open>s'\<close> has added to the trace\<close>
  "newCalls s s' = drop (length (trace s)) (trace s')"

text \<open>
  The object path in the specification's words: owner, category and percent-encoded name,
  with the extension chosen by category, \<^verbatim>\<open>pdf\<close> for documents and \<^verbatim>\<open>jpg\<close> otherwise. The
  theorems compare the paths the two methods compute with this one.
\<close>

definition spec_objectPath :: "jsstring \<Rightarrow> UploadType \<Rightarrow> jsstring \<Rightarrow> jsstring result" where
  "spec_objectPath ownerId category n =
     (case encodeURIComponent n of
        Inl e \<Rightarrow> Inl e
      | Inr encodedName \<Rightarrow>
          Inr (ownerId @ str ''/'' @ UploadType_string category @ str ''/'' @ encodedName @ str ''.''
               @ (if category = resumes then str ''pdf'' else str ''jpg'')))"

definition objectMetadata :: "UploadType \<Rightarrow> jsstring \<Rightarrow> metadata" where
  \<comment> \<open>the metadata \<open>uploadObject\<close> builds, by category\<close>
  "objectMetadata category encodedName =
     (if category = resumes
      then [(str ''Content-Type'', str ''application/pdf''),
            (str ''Content-Disposition'',
             str ''attachment; filename*=UTF-8'' @ [39, 39] @ encodedName @ str ''.pdf'')]
      else [(str ''Content-Type'', str ''image/jpeg'')])"

definition uploadError :: exn where
  \<comment> \<open>the exception of the \<^verbatim>\<open>catch\<close> in \<open>uploadObject\<close>\<close>
  "uploadError = InternalServerErrorException (str ''There was an error while uploading the file.'')"

text \<open>
  \<open>deleteFolder\<close> with a step of another writer between its two phases: \<open>other\<close> is what
  that writer does to the store after the listing has returned and before the removal
  is sent.
\<close>

definition deleteFolder_interleaved ::
  "'st MinioClient \<Rightarrow> StorageService \<Rightarrow> jsstring \<Rightarrow> ('st \<Rightarrow> 'st) \<Rightarrow> 'st world
    \<Rightarrow> unit result \<times> 'st world" where
  "deleteFolder_interleaved client this prefix other s =
     (case deleteFolder_list client this prefix s of
        (Inl error, s1) \<Rightarrow> (Inl error, s1)
      | (Inr objectsList, s1) \<Rightarrow>
          deleteFolder_remove client this prefix objectsList (s1\<lparr>store := other (store s1)\<rparr>))"

text \<open>Clients of which one operation rejects with a given error, whatever it is asked.\<close>

definition rejecting_bucketExists :: "exn \<Rightarrow> 'st MinioClient \<Rightarrow> 'st MinioClient" where
  "rejecting_bucketExists e client = client\<lparr>client_bucketExists := \<lambda>b st. (Inl e, st)\<rparr>"

definition rejecting_statObject :: "exn \<Rightarrow> 'st MinioClient \<Rightarrow> 'st MinioClient" where
  "rejecting_statObject e client = client\<lparr>client_statObject := \<lambda>b k st. (Inl e, st)\<rparr>"

definition rejecting_listObjectsV2 :: "exn \<Rightarrow> 'st MinioClient \<Rightarrow> 'st MinioClient" where
  "rejecting_listObjectsV2 e client = client\<lparr>client_listObjectsV2 := \<lambda>b p r st. (Inl e, st)\<rparr>"

definition rejecting_removeObject :: "exn \<Rightarrow> 'st MinioClient \<Rightarrow> 'st MinioClient" where
  "rejecting_removeObject e client = client\<lparr>client_removeObject := \<lambda>b k st. (Inl e, st)\<rparr>"

definition rejecting_removeObjects :: "exn \<Rightarrow> 'st MinioClient \<Rightarrow> 'st MinioClient" where
  "rejecting_removeObjects e client = client\<lparr>client_removeObjects := \<lambda>b ks st. (Inl e, st)\<rparr>"

text \<open>
  The configuration of the repository's compose file, the service it initialises, and
  three states of the store in memory: without a bucket, with the empty bucket, and with
  the objects of two users.
\<close>

definition composeConfig :: Config where
  "composeConfig =
     \<lparr>STORAGE_BUCKET = Some (str ''default''),
      STORAGE_SKIP_BUCKET_CHECK = Some False,
      STORAGE_URL = Some (str ''http://resaipro.com/default'')\<rparr>"

definition defaultService :: StorageService where
  "defaultService = \<lparr>bucketName = str ''default''\<rparr>"

definition noBuckets :: MemoryStore where
  "noBuckets = \<lparr>buckets = [], policies = [], objects = []\<rparr>"

definition emptyBucket :: MemoryStore where
  "emptyBucket = \<lparr>buckets = [str ''default''], policies = [], objects = []\<rparr>"

definition twoUsers :: MemoryStore where
  "twoUsers =
     \<lparr>buckets = [str ''default''],
      policies = [],
      objects =
        [((str ''default'', str ''u1/pictures/a.jpg''), [1], [(str ''Content-Type'', str ''image/jpeg'')]),
         ((str ''default'', str ''u1/resumes/cv.pdf''), [2], [(str ''Content-Type'', str ''application/pdf'')]),
         ((str ''default'', str ''u2/resumes/cv.pdf''), [3], [(str ''Content-Type'', str ''application/pdf'')])]\<rparr>"

text \<open>
  The replacement of every occurrence of a pattern by a string taken literally: what
  \<open>replaceAll\<close> does when the replacement holds no dollar sign.
\<close>

function replaceEach :: "jsstring \<Rightarrow> jsstring \<Rightarrow> jsstring \<Rightarrow> jsstring" where
  "replaceEach pattern replacement [] = []"
| "replaceEach pattern replacement (c # cs) =
     (if pattern \<noteq> [] \<and> take (length pattern) (c # cs) = pattern
      then replacement @ replaceEach pattern replacement (drop (length pattern) (c # cs))
      else c # replaceEach pattern replacement cs)"
  by pat_completeness auto
termination
  by (relation "measure (\<lambda>(pattern, replacement, subject). length subject)") auto

section \<open>Basic facts\<close>

lemma invoke_resolved:
  "f (store s) = (r, st) \<Longrightarrow> invoke c f s = (r, s\<lparr>store := st, trace := trace s @ [c]\<rparr>)"
  by (simp add: invoke_def)

lemma logger_simps [simp]:
  "trace (logger_log m s) = trace s" "store (logger_log m s) = store s"
  "trace (logger_warn m s) = trace s" "store (logger_warn m s) = store s"
  "trace (logger_error m e s) = trace s" "store (logger_error m e s) = store s"
  by (simp_all add: logger_log_def logger_warn_def logger_error_def)

lemma newCalls_append [simp]: "trace s' = trace s @ cs \<Longrightarrow> newCalls s s' = cs"
  by (simp add: newCalls_def)

lemma newCalls_same [simp]: "trace s' = trace s \<Longrightarrow> newCalls s s' = []"
  by (simp add: newCalls_def)

lemma of_char_less: "(of_char c :: nat) < 65536"
proof -
  have "(of_char c :: nat) = of_char c mod 256" by simp
  also have "\<dots> < 256" by (rule mod_less_divisor) simp
  finally have "(of_char c :: nat) < 256" .
  then show ?thesis by linarith
qed

lemma unat_unit_of_char: "unat (unit_of_char c) = of_char c"
proof -
  have "unat (word_of_nat (of_char c) :: 16 word) = of_char c mod 65536"
    by (simp add: unat_of_nat)
  also have "\<dots> = of_char c" using of_char_less by (rule mod_less)
  finally show ?thesis by (simp only: unit_of_char_def)
qed

lemma unit_of_char_inj: "unit_of_char c = unit_of_char d \<Longrightarrow> c = d"
proof -
  assume "unit_of_char c = unit_of_char d"
  then have "unat (unit_of_char c) = unat (unit_of_char d)" by (rule arg_cong)
  then have "(of_char c :: nat) = of_char d" by (simp only: unat_unit_of_char)
  then show "c = d" by (rule of_char_eqI)
qed

lemma str_eq_iff [simp]: "str a = str b \<longleftrightarrow> a = b"
proof
  assume "str a = str b"
  then show "a = b"
  proof (induction a arbitrary: b)
    case Nil then show ?case by (simp add: str_def)
  next
    case (Cons x xs)
    then obtain y ys where b: "b = y # ys" by (cases b) (auto simp add: str_def)
    with Cons.prems have "unit_of_char x = unit_of_char y" "str xs = str ys"
      by (simp_all add: str_def)
    with Cons.IH b show ?case by (simp add: unit_of_char_inj)
  qed
qed simp

lemma str_append: "str a @ str b = str (a @ b)" "str a @ str b @ r = str (a @ b) @ r"
  by (simp_all add: str_def)

lemma str_Nil [simp]: "str [] = []"
  by (simp add: str_def)

lemma memoryClient_simps [simp]:
  "client_bucketExists memoryClient = memory_bucketExists"
  "client_makeBucket memoryClient = memory_makeBucket"
  "client_setBucketPolicy memoryClient = memory_setBucketPolicy"
  "client_putObject memoryClient = memory_putObject"
  "client_statObject memoryClient = memory_statObject"
  "client_removeObject memoryClient = memory_removeObject"
  "client_listObjectsV2 memoryClient = memory_listObjectsV2"
  "client_removeObjects memoryClient = memory_removeObjects"
  by (simp_all add: memoryClient_def)

lemma example_simps [simp]:
  "STORAGE_BUCKET composeConfig = Some (str ''default'')"
  "STORAGE_SKIP_BUCKET_CHECK composeConfig = Some False"
  "STORAGE_URL composeConfig = Some (str ''http://resaipro.com/default'')"
  "bucketName defaultService = str ''default''"
  "buckets emptyBucket = [str ''default'']"
  "objects emptyBucket = []"
  "policies emptyBucket = []"
  "store (start st) = st" "trace (start st) = []" "logs (start st) = []"
  by (simp_all add: composeConfig_def defaultService_def emptyBucket_def start_def)

lemma length_str [simp]: "length (str a) = length a"
  by (simp add: str_def)

lemma take_str: "take n (str a) = str (take n a)"
  by (simp add: str_def take_map)

lemma twoUsers_simps [simp]:
  "buckets twoUsers = [str ''default'']"
  "policies twoUsers = []"
  "objects twoUsers =
        [((str ''default'', str ''u1/pictures/a.jpg''), [1], [(str ''Content-Type'', str ''image/jpeg'')]),
         ((str ''default'', str ''u1/resumes/cv.pdf''), [2], [(str ''Content-Type'', str ''application/pdf'')]),
         ((str ''default'', str ''u2/resumes/cv.pdf''), [3], [(str ''Content-Type'', str ''application/pdf'')])]"
  by (simp_all add: twoUsers_def)

lemmas uri_eval = encodeURIComponent_def uriUnescaped_def andThen_def isTrailingSurrogate_def
  isLeadingSurrogate_def utf8Encode_def percentEncode_def hexDigit_def str_def unit_of_char_def

lemma encode_examples:
  "encodeURIComponent (str ''avatar'') = Inr (str ''avatar'')"
  "encodeURIComponent (str ''My Resume'') = Inr (str ''My%20Resume'')"
  "encodeURIComponent (str ''cv'') = Inr (str ''cv'')"
  by (simp_all add: uri_eval)

lemmas memory_eval = memory_bucketExists_def memory_makeBucket_def
  memory_setBucketPolicy_def memory_putObject_def memory_statObject_def memory_removeObject_def
  memory_listObjectsV2_def memory_removeObjects_def noSuchBucket_def isPrefixOf_def

lemmas service_eval = invoke_def logger_log_def logger_warn_def logger_error_def getOrThrow_def
  Let_def str_append

lemmas sharp_eval = sharp_toBuffer_def headerCodec_def headerDecode_def
  headerEncode_def resizeImage_def roundDiv_def sharp_def resize_def jpeg_def

lemma resize_example:
  "uploadObject_resize (sharp_toBuffer headerCodec) (str ''jpg'') [7, 208, 3, 232]
   = Inr [4, 176, 2, 88]"
  by (simp add: uploadObject_resize_def sharp_eval)

section \<open>Percent-encoding round trip\<close>

lemma unat_word16_of_nat: "n < 65536 \<Longrightarrow> unat (word_of_nat n :: 16 word) = n"
  by (simp add: unat_of_nat)

lemma ParseHexDigit_hexDigit: "d < 16 \<Longrightarrow> ParseHexDigit (hexDigit d) = Some d"
  by (auto simp add: ParseHexDigit_def hexDigit_def unat_word16_of_nat Let_def)

lemma ParseHexOctet_hexDigits:
  assumes "b < 256"
  shows "ParseHexOctet (hexDigit (b div 16) # hexDigit (b mod 16) # rest) = Some b"
proof -
  have "b div 16 < 16" using assms by arith
  moreover have "b mod 16 < 16" by simp
  ultimately show ?thesis by (simp add: ParseHexDigit_hexDigit)
qed

lemma drop2_Cons: "drop 2 (a # b # s) = s"
  by (simp add: numeral_2_eq_2)

lemma length_percentEncode: "length (percentEncode b) = 3"
  by (simp add: percentEncode_def)

lemma continuationBytes_percentEncode:
  "b < 256 \<Longrightarrow>
   continuationBytes (Suc j) (percentEncode b @ s) = map_option ((#) b) (continuationBytes j s)"
  by (simp add: percentEncode_def ParseHexOctet_hexDigits drop2_Cons del: ParseHexOctet.simps)

lemma continuationBytes_1:
  "b < 256 \<Longrightarrow> continuationBytes (Suc 0) (percentEncode b @ s) = Some [b]"
  by (simp add: continuationBytes_percentEncode del: continuationBytes.simps(2))

lemma continuationBytes_2:
  "b < 256 \<Longrightarrow> c < 256 \<Longrightarrow>
   continuationBytes (Suc (Suc 0)) (percentEncode b @ percentEncode c @ s) = Some [b, c]"
  by (simp add: continuationBytes_percentEncode del: continuationBytes.simps(2))

lemma continuationBytes_3:
  "b < 256 \<Longrightarrow> c < 256 \<Longrightarrow> d < 256 \<Longrightarrow>
   continuationBytes (Suc (Suc (Suc 0))) (percentEncode b @ percentEncode c @ percentEncode d @ s)
   = Some [b, c, d]"
  by (simp add: continuationBytes_percentEncode del: continuationBytes.simps(2))

lemma Decode_ascii_escape:
  assumes "b < 128"
  shows "Decode (percentEncode b @ s) = andThen [word_of_nat b] (Decode s)"
  using assms
  by (simp add: percentEncode_def ParseHexOctet_hexDigits drop2_Cons leadingOnes_def
        del: ParseHexOctet.simps)

lemma Decode_lead:
  assumes "b < 256" and "leadingOnes b = Suc m" and "0 < m" and "m < 4"
    and "continuationBytes m s = Some Octets" and "utf8Decode (b # Octets) = Some V"
  shows "Decode (percentEncode b @ s) = andThen (UTF16EncodeCodePoint V) (Decode (drop (3 * m) s))"
  using assms
  by (simp add: percentEncode_def ParseHexOctet_hexDigits drop2_Cons
        del: ParseHexOctet.simps utf8Decode.simps)

lemma mod64_le: "(x::nat) mod 64 \<le> 63"
proof -
  have "x mod 64 < 64" by simp
  then show ?thesis by linarith
qed

lemma split3: "((cp::nat) div 4096) * 4096 + ((cp div 64) mod 64) * 64 + cp mod 64 = cp"
proof -
  define C where "C = cp div 64"
  define A where "A = C div 64"
  define B where "B = C mod 64"
  define D where "D = cp mod 64"
  have 1: "C = A * 64 + B" unfolding A_def B_def by simp
  have 2: "cp = C * 64 + D" unfolding C_def D_def by simp
  have 3: "cp div 4096 = A" unfolding A_def C_def by (simp add: div_mult2_eq [symmetric])
  have "A * 4096 + B * 64 + D = cp" using 1 2 by simp
  then show ?thesis using 3 by (simp add: B_def C_def D_def)
qed

lemma split4:
  "((cp::nat) div 262144) * 262144 + ((cp div 4096) mod 64) * 4096
     + ((cp div 64) mod 64) * 64 + cp mod 64 = cp"
proof -
  define C where "C = cp div 4096"
  define A where "A = C div 64"
  define B where "B = C mod 64"
  have 1: "C = A * 64 + B" unfolding A_def B_def by simp
  have 2: "cp div 262144 = A" unfolding A_def C_def by (simp add: div_mult2_eq [symmetric])
  have "A * 262144 + B * 4096 = C * 4096" using 1 by simp
  then have "(cp div 262144) * 262144 + ((cp div 4096) mod 64) * 4096 = (cp div 4096) * 4096"
    using 2 by (simp add: B_def C_def)
  then show ?thesis using split3 [of cp] by simp
qed

lemma Decode_utf8_1:
  assumes "cp < 128"
  shows "Decode (concat (map percentEncode (utf8Encode cp)) @ s)
         = andThen (UTF16EncodeCodePoint cp) (Decode s)"
  using assms by (simp add: utf8Encode_def Decode_ascii_escape UTF16EncodeCodePoint_def)

lemma Decode_utf8_2:
  assumes "128 \<le> cp" "cp < 2048"
  shows "Decode (concat (map percentEncode (utf8Encode cp)) @ s)
         = andThen (UTF16EncodeCodePoint cp) (Decode s)"
proof -
  let ?b1 = "192 + cp div 64" and ?b2 = "128 + cp mod 64"
  have b1: "?b1 < 256" using assms by arith
  have b2: "?b2 < 256" by arith
  have "cp div 64 < 32" using assms by arith
  then have lead: "leadingOnes ?b1 = Suc (Suc 0)" by (simp add: leadingOnes_def)
  have dec: "utf8Decode [?b1, ?b2] = Some cp"
    using assms by (simp add: isContinuation_def Let_def mod64_le)
  have "Decode (percentEncode ?b1 @ percentEncode ?b2 @ s)
        = andThen (UTF16EncodeCodePoint cp) (Decode s)"
    using Decode_lead [OF b1 lead _ _ continuationBytes_1 [OF b2] dec]
    by (simp add: length_percentEncode)
  then show ?thesis using assms by (simp add: utf8Encode_def)
qed

lemma Decode_utf8_3:
  assumes "2048 \<le> cp" "cp < 65536" "\<not> (55296 \<le> cp \<and> cp \<le> 57343)"
  shows "Decode (concat (map percentEncode (utf8Encode cp)) @ s)
         = andThen (UTF16EncodeCodePoint cp) (Decode s)"
proof -
  let ?b1 = "224 + cp div 4096" and ?b2 = "128 + (cp div 64) mod 64" and ?b3 = "128 + cp mod 64"
  have b1: "?b1 < 256" using assms by arith
  have b2: "?b2 < 256" by arith
  have b3: "?b3 < 256" by arith
  have "cp div 4096 < 16" using assms by arith
  then have lead: "leadingOnes ?b1 = Suc (Suc (Suc 0))" by (simp add: leadingOnes_def)
  have dec: "utf8Decode [?b1, ?b2, ?b3] = Some cp"
    using assms split3 [of cp] by (simp add: isContinuation_def Let_def mod64_le)
  have "Decode (percentEncode ?b1 @ percentEncode ?b2 @ percentEncode ?b3 @ s)
        = andThen (UTF16EncodeCodePoint cp) (Decode s)"
    using Decode_lead [OF b1 lead _ _ continuationBytes_2 [OF b2 b3] dec]
    by (simp add: length_percentEncode)
  then show ?thesis using assms by (simp add: utf8Encode_def)
qed

lemma Decode_utf8_4:
  assumes "65536 \<le> cp" "cp \<le> 1114111"
  shows "Decode (concat (map percentEncode (utf8Encode cp)) @ s)
         = andThen (UTF16EncodeCodePoint cp) (Decode s)"
proof -
  let ?b1 = "240 + cp div 262144" and ?b2 = "128 + (cp div 4096) mod 64"
    and ?b3 = "128 + (cp div 64) mod 64" and ?b4 = "128 + cp mod 64"
  have lt: "cp div 262144 < 8" using assms by arith
  then have b1: "?b1 < 256" by simp
  have b2: "?b2 < 256" by arith
  have b3: "?b3 < 256" by arith
  have b4: "?b4 < 256" by arith
  have lead: "leadingOnes ?b1 = Suc (Suc (Suc (Suc 0)))" using lt by (simp add: leadingOnes_def)
  have dec: "utf8Decode [?b1, ?b2, ?b3, ?b4] = Some cp"
    using assms split4 [of cp] by (simp add: isContinuation_def Let_def mod64_le)
  have "Decode (percentEncode ?b1 @ percentEncode ?b2 @ percentEncode ?b3 @ percentEncode ?b4 @ s)
        = andThen (UTF16EncodeCodePoint cp) (Decode s)"
    using Decode_lead [OF b1 lead _ _ continuationBytes_3 [OF b2 b3 b4] dec]
    by (simp add: length_percentEncode)
  then show ?thesis using assms by (simp add: utf8Encode_def)
qed

lemma UTF16Encode_unit:
  "unat C < 65536 \<Longrightarrow> UTF16EncodeCodePoint (unat C) = [C]" for C :: code_unit
  by (simp add: UTF16EncodeCodePoint_def)

lemma unat_code_unit_less: "unat (C :: code_unit) < 65536"
  using unsigned_less [of C, where 'a = nat] by simp

lemma UTF16Encode_pair:
  fixes C second :: code_unit
  assumes "isLeadingSurrogate (unat C)" "isTrailingSurrogate (unat second)"
  shows "UTF16EncodeCodePoint (UTF16SurrogatePairToCodePoint (unat C) (unat second)) = [C, second]"
proof -
  define l where "l = unat C - 55296"
  define t where "t = unat second - 56320"
  have l: "unat C = l + 55296" and t: "unat second = t + 56320" and tlt: "t < 1024"
    using assms by (auto simp add: l_def t_def isLeadingSurrogate_def isTrailingSurrogate_def)
  have cp: "UTF16SurrogatePairToCodePoint (unat C) (unat second) = l * 1024 + t + 65536"
    by (simp add: UTF16SurrogatePairToCodePoint_def l t)
  have "(l * 1024 + t) div 1024 = l" "(l * 1024 + t) mod 1024 = t" using tlt by simp_all
  then show ?thesis
    using l [symmetric] t [symmetric] by (simp add: cp UTF16EncodeCodePoint_def)
qed

lemma pair_range:
  assumes "isLeadingSurrogate l" "isTrailingSurrogate t"
  shows "65536 \<le> UTF16SurrogatePairToCodePoint l t"
    and "UTF16SurrogatePairToCodePoint l t \<le> 1114111"
proof -
  show "65536 \<le> UTF16SurrogatePairToCodePoint l t"
    by (simp add: UTF16SurrogatePairToCodePoint_def)
  have "l - 55296 \<le> 1023" using assms(1) unfolding isLeadingSurrogate_def by linarith
  then have "(l - 55296) * 1024 \<le> 1023 * 1024" by (rule mult_le_mono1)
  moreover have "t - 56320 \<le> 1023" using assms(2) unfolding isTrailingSurrogate_def by linarith
  ultimately show "UTF16SurrogatePairToCodePoint l t \<le> 1114111"
    by (simp add: UTF16SurrogatePairToCodePoint_def)
qed

lemma uriUnescaped_not_percent: "uriUnescaped (unat C) \<Longrightarrow> C \<noteq> 37" for C :: code_unit
  by (auto simp add: uriUnescaped_def)

lemma Decode_utf8_unit:
  fixes C :: code_unit
  assumes "\<not> isLeadingSurrogate (unat C)" "\<not> isTrailingSurrogate (unat C)"
  shows "Decode (concat (map percentEncode (utf8Encode (unat C))) @ s) = andThen [C] (Decode s)"
proof -
  have lt: "unat C < 65536" by (rule unat_code_unit_less)
  have ns: "\<not> (55296 \<le> unat C \<and> unat C \<le> 57343)"
    using assms by (auto simp add: isLeadingSurrogate_def isTrailingSurrogate_def)
  consider "unat C < 128" | "128 \<le> unat C" "unat C < 2048" | "2048 \<le> unat C"
    by linarith
  then have "Decode (concat (map percentEncode (utf8Encode (unat C))) @ s)
             = andThen (UTF16EncodeCodePoint (unat C)) (Decode s)"
  proof cases
    case 1 then show ?thesis by (rule Decode_utf8_1)
  next
    case 2 then show ?thesis by (rule Decode_utf8_2)
  next
    case 3 then show ?thesis using lt ns by (rule Decode_utf8_3)
  qed
  then show ?thesis by (simp add: UTF16Encode_unit [OF lt])
qed

lemma Decode_Encode_append:
  "Encode s = Inr e \<Longrightarrow> Decode e = Inr s"
proof (induction s arbitrary: e rule: Encode.induct)
  case 1
  then show ?case by simp
next
  case (2 C rest)
  show ?case
  proof (cases "uriUnescaped (unat C)")
    case True
    with "2.prems" obtain e' where e': "Encode rest = Inr e'" "e = C # e'"
      by (auto simp add: andThen_def split: sum.splits)
    from "2.IH"(1) [OF True e'(1)] have "Decode e' = Inr rest" .
    then show ?thesis
      using uriUnescaped_not_percent [OF True] by (simp add: e'(2) andThen_def)
  next
    case False
    note nu = False
    show ?thesis
    proof (cases "isTrailingSurrogate (unat C)")
      case True
      with "2.prems" nu show ?thesis by simp
    next
      case False
      note nt = False
      show ?thesis
      proof (cases "isLeadingSurrogate (unat C)")
        case True
        with "2.prems" nu nt obtain second rest' e' where
          r: "rest = second # rest'" and ts: "isTrailingSurrogate (unat second)"
          and e': "Encode rest' = Inr e'"
          and e: "e = concat (map percentEncode
                     (utf8Encode (UTF16SurrogatePairToCodePoint (unat C) (unat second)))) @ e'"
          by (auto simp add: andThen_def split: sum.splits list.splits if_splits)
        from "2.IH"(2) [OF nu nt True r ts e'] have "Decode e' = Inr rest'" .
        then show ?thesis
          using Decode_utf8_4 [OF pair_range [OF True ts], of e'] UTF16Encode_pair [OF True ts]
          by (simp add: e r andThen_def)
      next
        case False
        with "2.prems" nu nt obtain e' where e': "Encode rest = Inr e'"
          and e: "e = concat (map percentEncode (utf8Encode (unat C))) @ e'"
          by (auto simp add: andThen_def split: sum.splits)
        from "2.IH"(3) [OF nu nt False e'] have "Decode e' = Inr rest" .
        then show ?thesis
          using Decode_utf8_unit [OF False nt, of e'] by (simp add: e andThen_def)
      qed
    qed
  qed
qed

lemma unescaped_not_surrogate:
  "uriUnescaped c \<Longrightarrow> \<not> isLeadingSurrogate c \<and> \<not> isTrailingSurrogate c"
  by (auto simp add: uriUnescaped_def isLeadingSurrogate_def isTrailingSurrogate_def)

lemma Encode_wellFormed:
  "IsStringWellFormedUnicode s \<Longrightarrow> \<exists>e. Encode s = Inr e"
proof (induction s rule: Encode.induct)
  case 1
  then show ?case by simp
next
  case (2 C rest)
  show ?case
  proof (cases "uriUnescaped (unat C)")
    case True
    with "2.prems" unescaped_not_surrogate [OF True] have "IsStringWellFormedUnicode rest" by simp
    from "2.IH"(1) [OF True this] True show ?thesis by (auto simp add: andThen_def)
  next
    case nu: False
    show ?thesis
    proof (cases "isLeadingSurrogate (unat C)")
      case True
      then have nt: "\<not> isTrailingSurrogate (unat C)"
        by (simp add: isLeadingSurrogate_def isTrailingSurrogate_def)
      from "2.prems" True obtain second rest' where r: "rest = second # rest'"
        and ts: "isTrailingSurrogate (unat second)" and wf: "IsStringWellFormedUnicode rest'"
        by (auto split: list.splits)
      from "2.IH"(2) [OF nu nt True r ts wf] nu nt True r ts show ?thesis
        by (auto simp add: andThen_def)
    next
      case False
      with "2.prems" have nt: "\<not> isTrailingSurrogate (unat C)" and wf: "IsStringWellFormedUnicode rest"
        by (auto split: if_splits)
      from "2.IH"(3) [OF nu nt False wf] nu nt False show ?thesis
        by (auto simp add: andThen_def)
    qed
  qed
qed

text \<open>
  C9. Decoding the percent-encoding recovers the name: whatever \<open>encodeURIComponent\<close>
  returns for a file name, \<open>decodeURIComponent\<close> turns back into that name; and
  \<open>encodeURIComponent\<close> returns for every valid name, that is, every string in which no
  surrogate code unit stands alone.
\<close>

theorem percent_encoding_round_trip:
  "(IsStringWellFormedUnicode filename \<longrightarrow> (\<exists>encoded. encodeURIComponent filename = Inr encoded))
   \<and> (\<forall>encoded. encodeURIComponent filename = Inr encoded
         \<longrightarrow> decodeURIComponent encoded = Inr filename)"
  by (simp add: encodeURIComponent_def decodeURIComponent_def Encode_wellFormed Decode_Encode_append)

lemmas decode_eval = decodeURIComponent_def leadingOnes_def ParseHexDigit_def isContinuation_def
  UTF16EncodeCodePoint_def andThen_def Let_def

theorem percent_encoding_round_trip_witness:
  "IsStringWellFormedUnicode [233, 55357, 56832]
   \<and> encodeURIComponent [233, 55357, 56832] = Inr (str ''%C3%A9%F0%9F%98%80'')
   \<and> decodeURIComponent (str ''%C3%A9%F0%9F%98%80'') = Inr [233, 55357, 56832]"
proof -
  have wf: "IsStringWellFormedUnicode [233, 55357, 56832]"
    by (simp add: isLeadingSurrogate_def isTrailingSurrogate_def)
  have enc: "encodeURIComponent [233, 55357, 56832] = Inr (str ''%C3%A9%F0%9F%98%80'')"
    by (simp add: uri_eval UTF16SurrogatePairToCodePoint_def)
  from percent_encoding_round_trip [of "[233, 55357, 56832]"] wf enc show ?thesis by simp
qed

section \<open>uploadObject and deleteObject\<close>

lemma pdf_neq_jpg: "str ''pdf'' \<noteq> str ''jpg''"
  by simp

lemma dot_pdf: "str ''.'' @ str ''pdf'' = str ''.pdf''"
  by (simp add: str_append)

lemma uploadObject_try_resize_fails:
  assumes "uploadObject_resize toBuffer extension buffer = Inl e"
  shows "uploadObject_try client toBuffer this extension filepath url metadata buffer s = (Inl e, s)"
  using assms by (simp add: uploadObject_try_def)

lemma uploadObject_try_put_fails:
  fixes client toBuffer this extension filepath url metadata buffer s
  assumes "uploadObject_resize toBuffer extension buffer = Inr b'"
    and "client_putObject client (bucketName this) filepath b' metadata (store s) = (Inl e, st1)"
  defines "r \<equiv> uploadObject_try client toBuffer this extension filepath url metadata buffer s"
  shows "fst r = Inl e \<and> trace (snd r) = trace s @ [PutObject (bucketName this) filepath b' metadata]
         \<and> store (snd r) = st1"
  using assms(1,2) unfolding r_def
  by (simp add: uploadObject_try_def Let_def invoke_resolved)

lemma uploadObject_try_stat_fails:
  fixes client toBuffer this extension filepath url metadata buffer s
  assumes "uploadObject_resize toBuffer extension buffer = Inr b'"
    and "client_putObject client (bucketName this) filepath b' metadata (store s) = (Inr u, st1)"
    and "client_statObject client (bucketName this) filepath st1 = (Inl e, st2)"
  defines "r \<equiv> uploadObject_try client toBuffer this extension filepath url metadata buffer s"
  shows "fst r = Inl e
         \<and> trace (snd r) = trace s @ [PutObject (bucketName this) filepath b' metadata,
                                       StatObject (bucketName this) filepath]
         \<and> store (snd r) = st2"
  using assms(1,2,3) unfolding r_def
  by (simp add: uploadObject_try_def Let_def invoke_resolved)

lemma uploadObject_try_ok:
  fixes client toBuffer this extension filepath url metadata buffer s
  assumes "uploadObject_resize toBuffer extension buffer = Inr b'"
    and "client_putObject client (bucketName this) filepath b' metadata (store s) = (Inr u, st1)"
    and "client_statObject client (bucketName this) filepath st1 = (Inr objectExists, st2)"
  defines "r \<equiv> uploadObject_try client toBuffer this extension filepath url metadata buffer s"
  shows "fst r = Inr url
         \<and> trace (snd r) = trace s @ [PutObject (bucketName this) filepath b' metadata,
                                       StatObject (bucketName this) filepath]
         \<and> store (snd r) = st2"
  using assms(1,2,3) unfolding r_def
  by (simp add: uploadObject_try_def Let_def invoke_resolved)

lemma spec_objectPath_Inr:
  "spec_objectPath userId type filename = Inr path \<longleftrightarrow>
   (\<exists>encodedFilename. encodeURIComponent filename = Inr encodedFilename \<and>
      path = userId @ str ''/'' @ UploadType_string type @ str ''/'' @ encodedFilename @ str ''.''
               @ (if type = resumes then str ''pdf'' else str ''jpg''))"
  by (auto simp add: spec_objectPath_def split: sum.splits)

lemma uploadObject_eq:
  assumes "STORAGE_URL configService = Some storageUrl"
    and "encodeURIComponent filename = Inr encodedFilename"
    and "spec_objectPath userId type filename = Inr filepath"
  shows "uploadObject client toBuffer configService this userId type buffer filename s =
     (case uploadObject_try client toBuffer this (if type = resumes then str ''pdf'' else str ''jpg'')
             filepath (storageUrl @ str ''/'' @ filepath) (objectMetadata type encodedFilename) buffer s of
        (Inl error, s') \<Rightarrow> (Inl uploadError, logger_error (str ''Error uploading object to Minio:'') error s')
      | (Inr url', s') \<Rightarrow> (Inr url', s'))"
  using assms unfolding uploadError_def
  by (simp add: uploadObject_def spec_objectPath_def getOrThrow_def Let_def objectMetadata_def
      dot_pdf)

text \<open>What a run of \<open>uploadObject\<close> can be, by the outcome of each awaited call.\<close>

lemma uploadObject_outcome:
  fixes client toBuffer configService this userId type buffer filename s storageUrl
    encodedFilename filepath
  defines "r \<equiv> uploadObject client toBuffer configService this userId type buffer filename s"
    and "extension \<equiv> (if type = resumes then str ''pdf'' else str ''jpg'')"
    and "metadata \<equiv> objectMetadata type encodedFilename"
    and "b \<equiv> bucketName this"
  assumes url: "STORAGE_URL configService = Some storageUrl"
    and enc: "encodeURIComponent filename = Inr encodedFilename"
    and path: "spec_objectPath userId type filename = Inr filepath"
  shows
    "(\<exists>e. uploadObject_resize toBuffer extension buffer = Inl e \<and>
          fst r = Inl uploadError \<and> trace (snd r) = trace s \<and> store (snd r) = store s)
     \<or> (\<exists>b' e st1. uploadObject_resize toBuffer extension buffer = Inr b' \<and>
          client_putObject client b filepath b' metadata (store s) = (Inl e, st1) \<and>
          fst r = Inl uploadError \<and> trace (snd r) = trace s @ [PutObject b filepath b' metadata] \<and>
          store (snd r) = st1)
     \<or> (\<exists>b' st1 e st2. uploadObject_resize toBuffer extension buffer = Inr b' \<and>
          client_putObject client b filepath b' metadata (store s) = (Inr (), st1) \<and>
          client_statObject client b filepath st1 = (Inl e, st2) \<and>
          fst r = Inl uploadError \<and>
          trace (snd r) = trace s @ [PutObject b filepath b' metadata, StatObject b filepath] \<and>
          store (snd r) = st2)
     \<or> (\<exists>b' st1 objectExists st2. uploadObject_resize toBuffer extension buffer = Inr b' \<and>
          client_putObject client b filepath b' metadata (store s) = (Inr (), st1) \<and>
          client_statObject client b filepath st1 = (Inr objectExists, st2) \<and>
          fst r = Inr (storageUrl @ str ''/'' @ filepath) \<and>
          trace (snd r) = trace s @ [PutObject b filepath b' metadata, StatObject b filepath] \<and>
          store (snd r) = st2)"
proof -
  let ?t = "uploadObject_try client toBuffer this extension filepath (storageUrl @ str ''/'' @ filepath)
              metadata buffer s"
  have r: "r = (case ?t of
        (Inl error, s') \<Rightarrow> (Inl uploadError, logger_error (str ''Error uploading object to Minio:'') error s')
      | (Inr url', s') \<Rightarrow> (Inr url', s'))"
    unfolding r_def extension_def metadata_def by (rule uploadObject_eq [OF url enc path])
  have fail: "fst r = Inl uploadError \<and> trace (snd r) = trace (snd ?t) \<and> store (snd r) = store (snd ?t)"
    if "fst ?t = Inl e" for e
    using that unfolding r by (cases ?t) simp
  have ok: "fst r = Inr u \<and> trace (snd r) = trace (snd ?t) \<and> store (snd r) = store (snd ?t)"
    if "fst ?t = Inr u" for u
    using that unfolding r by (cases ?t) simp
  show ?thesis
  proof (cases "uploadObject_resize toBuffer extension buffer")
    case (Inl e)
    have "?t = (Inl e, s)" by (rule uploadObject_try_resize_fails [OF Inl])
    then have "fst ?t = Inl e" "snd ?t = s" by simp_all
    with fail [of e] Inl show ?thesis by simp
  next
    case (Inr b')
    obtain rp st1 where put: "client_putObject client b filepath b' metadata (store s) = (rp, st1)"
      by (cases "client_putObject client b filepath b' metadata (store s)") blast
    show ?thesis
    proof (cases rp)
      case (Inl e)
      from uploadObject_try_put_fails [OF Inr put [unfolded b_def Inl]] fail [of e] Inr put Inl
      show ?thesis unfolding b_def by auto
    next
      case u: (Inr u)
      obtain rs st2 where stat: "client_statObject client b filepath st1 = (rs, st2)"
        by (cases "client_statObject client b filepath st1") blast
      show ?thesis
      proof (cases rs)
        case (Inl e)
        from uploadObject_try_stat_fails [OF Inr put [unfolded b_def u] stat [unfolded b_def Inl]]
          fail [of e] Inr put u stat Inl
        show ?thesis unfolding b_def by auto
      next
        case ex: (Inr objectExists)
        from uploadObject_try_ok [OF Inr put [unfolded b_def u] stat [unfolded b_def ex]]
          ok [of "storageUrl @ str ''/'' @ filepath"] Inr put u stat ex
        show ?thesis unfolding b_def by auto
      qed
    qed
  qed
qed

lemma deleteObject_resolved:
  assumes "spec_objectPath userId type filename = Inr path"
    and "client_removeObject client (bucketName this) path (store s) = (Inr u, st)"
  shows "fst (deleteObject client this userId type filename s) = Inr ()"
    and "trace (snd (deleteObject client this userId type filename s))
         = trace s @ [RemoveObject (bucketName this) path]"
    and "store (snd (deleteObject client this userId type filename s)) = st"
  using assms
  by (auto simp add: deleteObject_def spec_objectPath_Inr Let_def invoke_resolved)

lemma deleteObject_rejected:
  assumes "spec_objectPath userId type filename = Inr path"
    and "client_removeObject client (bucketName this) path (store s) = (Inl e, st)"
  shows "fst (deleteObject client this userId type filename s)
         = Inl (InternalServerErrorException
                 (str ''There was an error while deleting the document at the specified path: ''
                  @ path @ str ''.''))"
    and "trace (snd (deleteObject client this userId type filename s))
         = trace s @ [RemoveObject (bucketName this) path]"
    and "store (snd (deleteObject client this userId type filename s)) = st"
  using assms
  by (auto simp add: deleteObject_def spec_objectPath_Inr Let_def invoke_resolved)

lemma deleteObject_trace:
  assumes path: "spec_objectPath userId type filename = Inr path"
  shows "trace (snd (deleteObject client this userId type filename s))
         = trace s @ [RemoveObject (bucketName this) path]"
proof -
  obtain r st where rm: "client_removeObject client (bucketName this) path (store s) = (r, st)"
    by (cases "client_removeObject client (bucketName this) path (store s)") blast
  show ?thesis
  proof (cases r)
    case (Inl e)
    show ?thesis by (rule deleteObject_rejected(2) [OF path rm [unfolded Inl]])
  next
    case (Inr u)
    show ?thesis by (rule deleteObject_resolved(2) [OF path rm [unfolded Inr]])
  qed
qed

text \<open>
  C2. \<open>uploadObject\<close> and \<open>deleteObject\<close> work on the same object path, the one the
  specification describes (\<open>spec_objectPath\<close>: owner, category, percent-encoded name and
  the extension, \<^verbatim>\<open>pdf\<close> for \<^verbatim>\<open>resumes\<close> and \<^verbatim>\<open>jpg\<close> otherwise), a function of the three
  inputs alone. The one call \<open>deleteObject\<close> makes removes that path. Every call
  \<open>uploadObject\<close> makes is about that path; once the resize (where there is one) has
  returned, its first call is the write of the resized buffer at that path; when the write
  and the check after it resolve, it returns the configured \<^verbatim>\<open>STORAGE_URL\<close>, a slash and
  the path; and it returns nothing else.
\<close>

theorem object_path_shared_by_upload_and_delete:
  assumes path: "spec_objectPath userId type filename = Inr path"
    and url: "STORAGE_URL configService = Some storageUrl"
    and enc: "encodeURIComponent filename = Inr encodedFilename"
  shows "newCalls s (snd (deleteObject client this userId type filename s))
           = [RemoveObject (bucketName this) path]
       \<and> (\<forall>c \<in> set (newCalls s
              (snd (uploadObject client toBuffer configService this userId type buffer filename s))).
            callPath c = Some path)
       \<and> (\<forall>u. fst (uploadObject client toBuffer configService this userId type buffer filename s) = Inr u
            \<longrightarrow> u = storageUrl @ str ''/'' @ path
                \<and> (\<exists>d m. newCalls s
                      (snd (uploadObject client toBuffer configService this userId type buffer filename s))
                    = [PutObject (bucketName this) path d m, StatObject (bucketName this) path]))
       \<and> (\<forall>buffer'.
            uploadObject_resize toBuffer (if type = resumes then str ''pdf'' else str ''jpg'') buffer
              = Inr buffer'
            \<longrightarrow> (\<exists>rest. newCalls s
                    (snd (uploadObject client toBuffer configService this userId type buffer filename s))
                  = PutObject (bucketName this) path buffer' (objectMetadata type encodedFilename) # rest))
       \<and> (\<forall>buffer' st1 objectExists st2.
            uploadObject_resize toBuffer (if type = resumes then str ''pdf'' else str ''jpg'') buffer
              = Inr buffer'
            \<and> client_putObject client (bucketName this) path buffer'
                  (objectMetadata type encodedFilename) (store s) = (Inr (), st1)
            \<and> client_statObject client (bucketName this) path st1 = (Inr objectExists, st2)
            \<longrightarrow> fst (uploadObject client toBuffer configService this userId type buffer filename s)
                = Inr (storageUrl @ str ''/'' @ path))"
proof -
  have del: "newCalls s (snd (deleteObject client this userId type filename s))
           = [RemoveObject (bucketName this) path]"
    by (rule newCalls_append) (rule deleteObject_trace [OF path])
  note out = uploadObject_outcome [OF url enc path, where client = client and toBuffer = toBuffer
      and this = this and buffer = buffer and s = s]
  from out
  have up: "(\<forall>c \<in> set (newCalls s
              (snd (uploadObject client toBuffer configService this userId type buffer filename s))).
            callPath c = Some path)
       \<and> (\<forall>u. fst (uploadObject client toBuffer configService this userId type buffer filename s) = Inr u
            \<longrightarrow> u = storageUrl @ str ''/'' @ path
                \<and> (\<exists>d m. newCalls s
                      (snd (uploadObject client toBuffer configService this userId type buffer filename s))
                    = [PutObject (bucketName this) path d m, StatObject (bucketName this) path]))"
    by (elim disjE exE conjE) (simp_all add: uploadError_def)
  from out
  have first: "\<exists>rest. newCalls s
                    (snd (uploadObject client toBuffer configService this userId type buffer filename s))
                  = PutObject (bucketName this) path buffer' (objectMetadata type encodedFilename) # rest"
    if "uploadObject_resize toBuffer (if type = resumes then str ''pdf'' else str ''jpg'') buffer
              = Inr buffer'" for buffer'
    using that by (elim disjE exE conjE) simp_all
  from out
  have ret: "fst (uploadObject client toBuffer configService this userId type buffer filename s)
                = Inr (storageUrl @ str ''/'' @ path)"
    if "uploadObject_resize toBuffer (if type = resumes then str ''pdf'' else str ''jpg'') buffer
              = Inr buffer'"
      and "client_putObject client (bucketName this) path buffer'
                  (objectMetadata type encodedFilename) (store s) = (Inr (), st1)"
      and "client_statObject client (bucketName this) path st1 = (Inr objectExists, st2)"
    for buffer' st1 objectExists st2
    using that by (elim disjE exE conjE) simp_all
  from del up first ret show ?thesis by blast
qed

theorem object_path_shared_by_upload_and_delete_witness:
  "spec_objectPath (str ''u1'') pictures (str ''avatar'') = Inr (str ''u1/pictures/avatar.jpg'')
   \<and> newCalls (start emptyBucket)
         (snd (deleteObject memoryClient defaultService (str ''u1'') pictures (str ''avatar'')
                 (start emptyBucket)))
       = [RemoveObject (str ''default'') (str ''u1/pictures/avatar.jpg'')]
   \<and> newCalls (start emptyBucket)
         (snd (uploadObject memoryClient (sharp_toBuffer headerCodec) composeConfig defaultService
                 (str ''u1'') pictures [7, 208, 3, 232] (str ''avatar'') (start emptyBucket)))
       = [PutObject (str ''default'') (str ''u1/pictures/avatar.jpg'') [4, 176, 2, 88]
            [(str ''Content-Type'', str ''image/jpeg'')],
          StatObject (str ''default'') (str ''u1/pictures/avatar.jpg'')]
   \<and> fst (uploadObject memoryClient (sharp_toBuffer headerCodec) composeConfig defaultService
            (str ''u1'') pictures [7, 208, 3, 232] (str ''avatar'') (start emptyBucket))
       = Inr (str ''http://resaipro.com/default/u1/pictures/avatar.jpg'')"
proof -
  have path: "spec_objectPath (str ''u1'') pictures (str ''avatar'')
              = Inr (str ''u1/pictures/avatar.jpg'')"
    by (simp add: spec_objectPath_def encode_examples str_append)
  have ok: "fst (uploadObject memoryClient (sharp_toBuffer headerCodec) composeConfig defaultService
            (str ''u1'') pictures [7, 208, 3, 232] (str ''avatar'') (start emptyBucket))
       = Inr (str ''http://resaipro.com/default/u1/pictures/avatar.jpg'')"
    by (simp add: uploadObject_def uploadObject_try_def resize_example encode_examples
        memory_eval service_eval)
  have calls: "newCalls (start emptyBucket)
         (snd (uploadObject memoryClient (sharp_toBuffer headerCodec) composeConfig defaultService
                 (str ''u1'') pictures [7, 208, 3, 232] (str ''avatar'') (start emptyBucket)))
       = [PutObject (str ''default'') (str ''u1/pictures/avatar.jpg'') [4, 176, 2, 88]
            [(str ''Content-Type'', str ''image/jpeg'')],
          StatObject (str ''default'') (str ''u1/pictures/avatar.jpg'')]"
    by (simp add: uploadObject_def uploadObject_try_def resize_example encode_examples
        memory_eval service_eval newCalls_def)
  from object_path_shared_by_upload_and_delete [OF path example_simps(3) encode_examples(1),
      where client = memoryClient and this = defaultService and s = "start emptyBucket"]
    path ok calls
  show ?thesis by simp
qed

lemma uploadObject_try_pdf:
  "uploadObject_try client toBuffer this (str ''pdf'') filepath url metadata buffer s
   = uploadObject_try client toBuffer' this (str ''pdf'') filepath url metadata buffer s"
  by (simp add: uploadObject_try_def uploadObject_resize_def)

text \<open>
  C3. A document upload (type \<^verbatim>\<open>resumes\<close>) hands the store the input buffer itself, whatever
  the image library would do (the result does not depend on it), with content type
  \<^verbatim>\<open>application/pdf\<close> and the content disposition
  \<^verbatim>\<open>attachment; filename*=UTF-8''\<close> followed by the percent-encoded file name and
  \<^verbatim>\<open>.pdf\<close>: that write is the first call the upload makes.
\<close>

theorem document_upload_stores_bytes_unchanged:
  assumes url: "STORAGE_URL configService = Some storageUrl"
    and enc: "encodeURIComponent filename = Inr encodedFilename"
  shows "(\<exists>rest. newCalls s
            (snd (uploadObject client toBuffer configService this userId resumes buffer filename s))
          = PutObject (bucketName this)
              (userId @ str ''/resumes/'' @ encodedFilename @ str ''.pdf'')
              buffer
              [(str ''Content-Type'', str ''application/pdf''),
               (str ''Content-Disposition'',
                str ''attachment; filename*=UTF-8'' @ [39, 39] @ encodedFilename @ str ''.pdf'')]
            # rest)
       \<and> uploadObject client toBuffer configService this userId resumes buffer filename s
         = uploadObject client toBuffer' configService this userId resumes buffer filename s"
proof -
  have path: "spec_objectPath userId resumes filename
              = Inr (userId @ str ''/resumes/'' @ encodedFilename @ str ''.pdf'')"
    using enc by (simp add: spec_objectPath_def str_append)
  have resize: "uploadObject_resize f (if resumes = resumes then str ''pdf'' else str ''jpg'') buffer
                = Inr buffer" for f
    by (simp add: uploadObject_resize_def)
  have md: "objectMetadata resumes encodedFilename =
      [(str ''Content-Type'', str ''application/pdf''),
       (str ''Content-Disposition'',
        str ''attachment; filename*=UTF-8'' @ [39, 39] @ encodedFilename @ str ''.pdf'')]"
    by (simp add: objectMetadata_def)
  from uploadObject_outcome [OF url enc path, where client = client and toBuffer = toBuffer
      and this = this and buffer = buffer and s = s]
  have 1: "\<exists>rest. newCalls s
            (snd (uploadObject client toBuffer configService this userId resumes buffer filename s))
          = PutObject (bucketName this)
              (userId @ str ''/resumes/'' @ encodedFilename @ str ''.pdf'')
              buffer
              [(str ''Content-Type'', str ''application/pdf''),
               (str ''Content-Disposition'',
                str ''attachment; filename*=UTF-8'' @ [39, 39] @ encodedFilename @ str ''.pdf'')]
            # rest"
    unfolding resize md by (elim disjE exE conjE) simp_all
  have 2: "uploadObject client toBuffer configService this userId resumes buffer filename s
         = uploadObject client toBuffer' configService this userId resumes buffer filename s"
    unfolding uploadObject_eq [OF url enc path]
    by (simp add: uploadObject_try_pdf [of client toBuffer _ _ _ _ _ _ toBuffer'])
  from 1 2 show ?thesis by simp
qed

theorem document_upload_stores_bytes_unchanged_witness:
  "newCalls (start emptyBucket)
     (snd (uploadObject memoryClient (sharp_toBuffer headerCodec) composeConfig defaultService
             (str ''u1'') resumes [37, 80, 68, 70] (str ''My Resume'') (start emptyBucket)))
   = [PutObject (str ''default'') (str ''u1/resumes/My%20Resume.pdf'') [37, 80, 68, 70]
        [(str ''Content-Type'', str ''application/pdf''),
         (str ''Content-Disposition'',
          str ''attachment; filename*=UTF-8'' @ [39, 39] @ str ''My%20Resume.pdf'')],
      StatObject (str ''default'') (str ''u1/resumes/My%20Resume.pdf'')]
   \<and> map_of (objects (store
         (snd (uploadObject memoryClient (sharp_toBuffer headerCodec) composeConfig defaultService
                 (str ''u1'') resumes [37, 80, 68, 70] (str ''My Resume'') (start emptyBucket)))))
       (str ''default'', str ''u1/resumes/My%20Resume.pdf'')
     = Some ([37, 80, 68, 70],
         [(str ''Content-Type'', str ''application/pdf''),
          (str ''Content-Disposition'',
           str ''attachment; filename*=UTF-8'' @ [39, 39] @ str ''My%20Resume.pdf'')])"
proof -
  have stored: "map_of (objects (store
         (snd (uploadObject memoryClient (sharp_toBuffer headerCodec) composeConfig defaultService
                 (str ''u1'') resumes [37, 80, 68, 70] (str ''My Resume'') (start emptyBucket)))))
       (str ''default'', str ''u1/resumes/My%20Resume.pdf'')
     = Some ([37, 80, 68, 70],
         [(str ''Content-Type'', str ''application/pdf''),
          (str ''Content-Disposition'',
           str ''attachment; filename*=UTF-8'' @ [39, 39] @ str ''My%20Resume.pdf'')])"
    by (simp add: uploadObject_def uploadObject_try_def uploadObject_resize_def encode_examples
        memory_eval service_eval)
  have calls: "length (newCalls (start emptyBucket)
     (snd (uploadObject memoryClient (sharp_toBuffer headerCodec) composeConfig defaultService
             (str ''u1'') resumes [37, 80, 68, 70] (str ''My Resume'') (start emptyBucket)))) = 2
    \<and> newCalls (start emptyBucket)
     (snd (uploadObject memoryClient (sharp_toBuffer headerCodec) composeConfig defaultService
             (str ''u1'') resumes [37, 80, 68, 70] (str ''My Resume'') (start emptyBucket))) ! 1
     = StatObject (str ''default'') (str ''u1/resumes/My%20Resume.pdf'')"
    by (simp add: uploadObject_def uploadObject_try_def uploadObject_resize_def encode_examples
        memory_eval service_eval newCalls_def)
  from document_upload_stores_bytes_unchanged [OF example_simps(3) encode_examples(2),
      where client = memoryClient and this = defaultService and s = "start emptyBucket"
        and userId = "str ''u1''" and buffer = "[37, 80, 68, 70]"
        and toBuffer = "sharp_toBuffer headerCodec"]
  obtain rest where rest: "newCalls (start emptyBucket)
     (snd (uploadObject memoryClient (sharp_toBuffer headerCodec) composeConfig defaultService
             (str ''u1'') resumes [37, 80, 68, 70] (str ''My Resume'') (start emptyBucket)))
   = PutObject (str ''default'') (str ''u1/resumes/My%20Resume.pdf'') [37, 80, 68, 70]
        [(str ''Content-Type'', str ''application/pdf''),
         (str ''Content-Disposition'',
          str ''attachment; filename*=UTF-8'' @ [39, 39] @ str ''My%20Resume.pdf'')] # rest"
    by (auto simp add: str_append)
  from calls have "rest = [StatObject (str ''default'') (str ''u1/resumes/My%20Resume.pdf'')]"
    unfolding rest by (cases rest) simp_all
  with rest stored show ?thesis by simp
qed

section \<open>The existence check after the write, and deleteObject on a missing object\<close>

text \<open>
  What \<open>uploadObject\<close> does after a write that resolved, by the outcome of the existence
  check: the URL when the check resolves, the upload error when it rejects.
\<close>

lemma uploadObject_by_outcome_of_check:
  assumes url: "STORAGE_URL configService = Some storageUrl"
    and enc: "encodeURIComponent filename = Inr encodedFilename"
    and path: "spec_objectPath userId type filename = Inr path"
    and resize: "uploadObject_resize toBuffer (if type = resumes then str ''pdf'' else str ''jpg'') buffer
                 = Inr buffer'"
    and put: "client_putObject client (bucketName this) path buffer' (objectMetadata type encodedFilename)
                (store s) = (Inr (), st1)"
  shows "(\<forall>objectExists st2.
            client_statObject client (bucketName this) path st1 = (Inr objectExists, st2)
            \<longrightarrow> fst (uploadObject client toBuffer configService this userId type buffer filename s)
                = Inr (storageUrl @ str ''/'' @ path))
       \<and> (\<forall>e st2.
            client_statObject client (bucketName this) path st1 = (Inl e, st2)
            \<longrightarrow> fst (uploadObject client toBuffer configService this userId type buffer filename s)
                = Inl (InternalServerErrorException
                        (str ''There was an error while uploading the file.'')))"
  using uploadObject_outcome [OF url enc path, where client = client and toBuffer = toBuffer
      and this = this and buffer = buffer and s = s] resize put
  by (elim disjE exE conjE) (simp_all add: uploadError_def)

lemma uploadObject_by_outcome_of_check_example:
  "fst (uploadObject memoryClient (sharp_toBuffer headerCodec) composeConfig defaultService
          (str ''u1'') pictures [7, 208, 3, 232] (str ''avatar'') (start emptyBucket))
     = Inr (str ''http://resaipro.com/default/u1/pictures/avatar.jpg'')
   \<and> fst (uploadObject (rejecting_statObject (StoreError (str ''SlowDown'')) memoryClient)
          (sharp_toBuffer headerCodec) composeConfig defaultService
          (str ''u1'') pictures [7, 208, 3, 232] (str ''avatar'') (start emptyBucket))
     = Inl (InternalServerErrorException (str ''There was an error while uploading the file.''))"
proof -
  let ?st1 = "emptyBucket\<lparr>objects := [((str ''default'', str ''u1/pictures/avatar.jpg''),
                 [4, 176, 2, 88], objectMetadata pictures (str ''avatar''))]\<rparr>"
  have path: "spec_objectPath (str ''u1'') pictures (str ''avatar'')
              = Inr (str ''u1/pictures/avatar.jpg'')"
    by (simp add: spec_objectPath_def encode_examples str_append)
  have resize: "uploadObject_resize (sharp_toBuffer headerCodec)
                  (if pictures = resumes then str ''pdf'' else str ''jpg'') [7, 208, 3, 232]
                = Inr [4, 176, 2, 88]"
    by (simp add: resize_example)
  have put: "client_putObject c (bucketName defaultService) (str ''u1/pictures/avatar.jpg'')
               [4, 176, 2, 88] (objectMetadata pictures (str ''avatar'')) (store (start emptyBucket))
             = (Inr (), ?st1)"
    if "client_putObject c = memory_putObject" for c
    by (simp add: that memory_eval)
  have stat1: "client_statObject memoryClient (bucketName defaultService)
                 (str ''u1/pictures/avatar.jpg'') ?st1 = (Inr True, ?st1)"
    by (simp add: memory_eval)
  have stat2: "client_statObject (rejecting_statObject (StoreError (str ''SlowDown'')) memoryClient)
                 (bucketName defaultService) (str ''u1/pictures/avatar.jpg'') ?st1
               = (Inl (StoreError (str ''SlowDown'')), ?st1)"
    by (simp add: rejecting_statObject_def)
  have c2: "client_putObject (rejecting_statObject (StoreError (str ''SlowDown'')) memoryClient)
            = memory_putObject"
    by (simp add: rejecting_statObject_def)
  from uploadObject_by_outcome_of_check
         [OF example_simps(3) encode_examples(1) path resize put, of memoryClient]
       uploadObject_by_outcome_of_check
         [OF example_simps(3) encode_examples(1) path resize put [OF c2]]
       stat1 stat2
  show ?thesis by (auto simp add: str_append)
qed

text \<open>
  C7. The source logs or warns on what the existence check resolves to and returns the URL
  on both branches: the check is written not to gate the upload. But it is awaited inside
  the \<^verbatim>\<open>try\<close>, and a check that rejects reaches the \<^verbatim>\<open>catch\<close>. In this run the write
  resolves and the object is in the store, the check rejects, and \<open>uploadObject\<close> raises
  the upload error instead of returning the URL.
\<close>

theorem upload_fails_when_existence_check_rejects:
  "map_of (objects (store (snd
       (uploadObject (rejecting_statObject (StoreError (str ''SlowDown'')) memoryClient)
          (sharp_toBuffer headerCodec) composeConfig defaultService
          (str ''u1'') resumes [37, 80, 68, 70] (str ''cv'') (start emptyBucket)))))
     (str ''default'', str ''u1/resumes/cv.pdf'')
   = Some ([37, 80, 68, 70], objectMetadata resumes (str ''cv''))
   \<and> fst (uploadObject (rejecting_statObject (StoreError (str ''SlowDown'')) memoryClient)
          (sharp_toBuffer headerCodec) composeConfig defaultService
          (str ''u1'') resumes [37, 80, 68, 70] (str ''cv'') (start emptyBucket))
     = Inl (InternalServerErrorException (str ''There was an error while uploading the file.''))"
  by (simp add: uploadObject_def uploadObject_try_def uploadObject_resize_def encode_examples
      memory_eval service_eval rejecting_statObject_def memoryClient_def objectMetadata_def)

text \<open>
  C8 as amended. \<open>deleteObject\<close> returns normally exactly when the client's \<^verbatim>\<open>removeObject\<close>
  resolves, and raises the internal-server error that names the path exactly when it
  rejects: an error for a path at which no object exists is the store's to give. The
  counterexample is the store in memory, which like S3 accepts the removal of an object
  that is not there: the call returns without an error.
\<close>

theorem delete_error_exactly_when_removal_rejects:
  assumes path: "spec_objectPath userId type filename = Inr path"
  shows "(\<forall>u st. client_removeObject client (bucketName this) path (store s) = (Inr u, st)
            \<longrightarrow> fst (deleteObject client this userId type filename s) = Inr ())
       \<and> (\<forall>e st. client_removeObject client (bucketName this) path (store s) = (Inl e, st)
            \<longrightarrow> fst (deleteObject client this userId type filename s)
                = Inl (InternalServerErrorException
                        (str ''There was an error while deleting the document at the specified path: ''
                         @ path @ str ''.'')))"
proof (intro conjI allI impI)
  fix u st
  assume "client_removeObject client (bucketName this) path (store s) = (Inr u, st)"
  then show "fst (deleteObject client this userId type filename s) = Inr ()"
    by (rule deleteObject_resolved(1) [OF path])
next
  fix e st
  assume "client_removeObject client (bucketName this) path (store s) = (Inl e, st)"
  then show "fst (deleteObject client this userId type filename s)
                = Inl (InternalServerErrorException
                        (str ''There was an error while deleting the document at the specified path: ''
                         @ path @ str ''.''))"
    by (rule deleteObject_rejected(1) [OF path])
qed

theorem delete_error_exactly_when_removal_rejects_counterexample:
  "map_of (objects (store (start emptyBucket))) (str ''default'', str ''u1/resumes/cv.pdf'') = None
   \<and> spec_objectPath (str ''u1'') resumes (str ''cv'') = Inr (str ''u1/resumes/cv.pdf'')
   \<and> fst (deleteObject memoryClient defaultService (str ''u1'') resumes (str ''cv'')
            (start emptyBucket)) = Inr ()"
  by (simp add: deleteObject_def spec_objectPath_def encode_examples memory_eval service_eval)

theorem delete_error_exactly_when_removal_rejects_witness:
  "fst (deleteObject memoryClient defaultService (str ''u1'') resumes (str ''cv'')
          (start emptyBucket)) = Inr ()
   \<and> fst (deleteObject (rejecting_removeObject (StoreError (str ''AccessDenied'')) memoryClient)
            defaultService (str ''u1'') resumes (str ''cv'') (start emptyBucket))
     = Inl (InternalServerErrorException
             (str ''There was an error while deleting the document at the specified path: u1/resumes/cv.pdf.''))"
proof -
  have path: "spec_objectPath (str ''u1'') resumes (str ''cv'') = Inr (str ''u1/resumes/cv.pdf'')"
    by (simp add: spec_objectPath_def encode_examples str_append)
  have rm1: "client_removeObject memoryClient (bucketName defaultService) (str ''u1/resumes/cv.pdf'')
               (store (start emptyBucket)) = (Inr (), emptyBucket\<lparr>objects := []\<rparr>)"
    by (simp add: memory_eval)
  have rm2: "client_removeObject (rejecting_removeObject (StoreError (str ''AccessDenied'')) memoryClient)
               (bucketName defaultService) (str ''u1/resumes/cv.pdf'') (store (start emptyBucket))
             = (Inl (StoreError (str ''AccessDenied'')), emptyBucket)"
    by (simp add: rejecting_removeObject_def)
  from delete_error_exactly_when_removal_rejects [OF path, of memoryClient defaultService "start emptyBucket"]
       delete_error_exactly_when_removal_rejects [OF path,
         of "rejecting_removeObject (StoreError (str ''AccessDenied'')) memoryClient"
            defaultService "start emptyBucket"]
       rm1 rm2
  show ?thesis by (simp add: str_append)
qed

section \<open>deleteFolder\<close>

lemma fold_push_names:
  "fold (\<lambda>object objectsList. objectsList @ [name object]) items acc = acc @ map name items"
  by (induction items arbitrary: acc) simp_all

lemma deleteFolder_list_resolved:
  assumes "client_listObjectsV2 client (bucketName this) prefix True (store s) = (Inr items, st1)"
  shows "deleteFolder_list client this prefix s
         = (Inr (map name items),
            s\<lparr>store := st1, trace := trace s @ [ListObjectsV2 (bucketName this) prefix True]\<rparr>)"
  using assms by (simp add: deleteFolder_list_def invoke_resolved fold_push_names)

lemma deleteFolder_list_rejected:
  assumes "client_listObjectsV2 client (bucketName this) prefix True (store s) = (Inl e, st1)"
  shows "deleteFolder_list client this prefix s
         = (Inl e, s\<lparr>store := st1, trace := trace s @ [ListObjectsV2 (bucketName this) prefix True]\<rparr>)"
  using assms by (simp add: deleteFolder_list_def invoke_resolved)

lemma deleteFolder_remove_resolved:
  assumes "client_removeObjects client (bucketName this) objectsList (store s) = (Inr u, st2)"
  shows "fst (deleteFolder_remove client this prefix objectsList s) = Inr ()"
    and "trace (snd (deleteFolder_remove client this prefix objectsList s))
         = trace s @ [RemoveObjects (bucketName this) objectsList]"
    and "store (snd (deleteFolder_remove client this prefix objectsList s)) = st2"
  using assms by (simp_all add: deleteFolder_remove_def Let_def invoke_resolved)

lemma deleteFolder_remove_rejected:
  assumes "client_removeObjects client (bucketName this) objectsList (store s) = (Inl e, st2)"
  shows "fst (deleteFolder_remove client this prefix objectsList s)
         = Inl (InternalServerErrorException
                 (str ''There was an error while deleting the folder at the specified path: ''
                  @ bucketName this @ str ''/'' @ prefix @ str ''.''))"
    and "trace (snd (deleteFolder_remove client this prefix objectsList s))
         = trace s @ [RemoveObjects (bucketName this) objectsList]"
    and "store (snd (deleteFolder_remove client this prefix objectsList s)) = st2"
  using assms by (simp_all add: deleteFolder_remove_def Let_def invoke_resolved)

lemma deleteFolder_remove_trace:
  "trace (snd (deleteFolder_remove client this prefix objectsList s))
   = trace s @ [RemoveObjects (bucketName this) objectsList]"
proof -
  obtain r st where rm: "client_removeObjects client (bucketName this) objectsList (store s) = (r, st)"
    by (cases "client_removeObjects client (bucketName this) objectsList (store s)") blast
  show ?thesis
  proof (cases r)
    case (Inl e)
    show ?thesis by (rule deleteFolder_remove_rejected(2) [OF rm [unfolded Inl]])
  next
    case (Inr u)
    show ?thesis by (rule deleteFolder_remove_resolved(2) [OF rm [unfolded Inr]])
  qed
qed

lemma deleteFolder_eq_interleaved:
  "deleteFolder client this prefix s = deleteFolder_interleaved client this prefix (\<lambda>st. st) s"
  by (simp add: deleteFolder_def deleteFolder_interleaved_def split: prod.splits sum.splits)

lemma deleteFolder_interleaved_listed:
  assumes "client_listObjectsV2 client (bucketName this) prefix True (store s) = (Inr items, st1)"
  shows "deleteFolder_interleaved client this prefix other s
         = deleteFolder_remove client this prefix (map name items)
             (s\<lparr>trace := trace s @ [ListObjectsV2 (bucketName this) prefix True], store := other st1\<rparr>)"
  by (simp add: deleteFolder_interleaved_def deleteFolder_list_resolved [OF assms])

lemma deleteFolder_interleaved_trace:
  assumes "client_listObjectsV2 client (bucketName this) prefix True (store s) = (Inr items, st1)"
  shows "trace (snd (deleteFolder_interleaved client this prefix other s))
         = trace s @ [ListObjectsV2 (bucketName this) prefix True,
                      RemoveObjects (bucketName this) (map name items)]"
  by (simp add: deleteFolder_interleaved_listed [OF assms] deleteFolder_remove_trace)

lemma deleteFolder_list_fails:
  assumes "client_listObjectsV2 client (bucketName this) prefix True (store s) = (Inl e, st1)"
  shows "fst (deleteFolder client this prefix s) = Inl e"
    and "trace (snd (deleteFolder client this prefix s))
         = trace s @ [ListObjectsV2 (bucketName this) prefix True]"
  by (simp_all add: deleteFolder_def deleteFolder_list_rejected [OF assms])

subsection \<open>The store in memory\<close>

lemma map_of_filter_key:
  "map_of (filter (\<lambda>(k, v). P k) xs) k = (if P k then map_of xs k else None)"
  by (induction xs) auto

lemma memory_listing_names:
  "map name (map (\<lambda>(k, data, meta). \<lparr>name = snd k, size = length data\<rparr>) xs) = map (\<lambda>x. snd (fst x)) xs"
  by (induction xs) auto

lemma memory_item_name:
  "(\<lambda>x. name (case x of (k, data, meta) \<Rightarrow> \<lparr>name = snd k, size = length data\<rparr>))
   = (\<lambda>x. snd (fst x))"
  by (auto simp add: fun_eq_iff)

lemma memory_list:
  assumes "b \<in> set (buckets st)"
  shows "memory_listObjectsV2 b prefix r st
         = (Inr (map (\<lambda>(k, data, meta). \<lparr>name = snd k, size = length data\<rparr>)
                   (filter (\<lambda>(k, object). fst k = b \<and> isPrefixOf prefix (snd k)) (objects st))), st)"
  using assms by (simp add: memory_listObjectsV2_def)

lemma memory_list_fails:
  assumes "b \<notin> set (buckets st)"
  shows "memory_listObjectsV2 b prefix r st = (Inl noSuchBucket, st)"
  using assms by (simp add: memory_listObjectsV2_def)

lemma memory_deleteFolder_store:
  assumes b: "bucketName this \<in> set (buckets (store s))"
  shows "fst (deleteFolder_interleaved memoryClient this prefix other s) =
           (if bucketName this \<in> set (buckets (other (store s))) then Inr ()
            else Inl (InternalServerErrorException
                 (str ''There was an error while deleting the folder at the specified path: ''
                  @ bucketName this @ str ''/'' @ prefix @ str ''.'')))"
    and "bucketName this \<in> set (buckets (other (store s))) \<Longrightarrow>
         objects (store (snd (deleteFolder_interleaved memoryClient this prefix other s)))
         = filter (\<lambda>(k, object). \<not> (fst k = bucketName this \<and>
                     snd k \<in> set (map (\<lambda>x. snd (fst x))
                        (filter (\<lambda>(k, object). fst k = bucketName this \<and> isPrefixOf prefix (snd k))
                           (objects (store s))))))
             (objects (other (store s)))"
    and "bucketName this \<in> set (buckets (other (store s))) \<Longrightarrow>
         buckets (store (snd (deleteFolder_interleaved memoryClient this prefix other s)))
         = buckets (other (store s))"
proof -
  let ?items = "map (\<lambda>(k, data, meta). \<lparr>name = snd k, size = length data\<rparr>)
                   (filter (\<lambda>(k, object). fst k = bucketName this \<and> isPrefixOf prefix (snd k))
                      (objects (store s)))"
  have list: "client_listObjectsV2 memoryClient (bucketName this) prefix True (store s)
              = (Inr ?items, store s)"
    using memory_list [OF b] by simp
  note eq = deleteFolder_interleaved_listed [OF list]
  show "fst (deleteFolder_interleaved memoryClient this prefix other s) =
           (if bucketName this \<in> set (buckets (other (store s))) then Inr ()
            else Inl (InternalServerErrorException
                 (str ''There was an error while deleting the folder at the specified path: ''
                  @ bucketName this @ str ''/'' @ prefix @ str ''.'')))"
    unfolding eq
    by (simp add: deleteFolder_remove_def Let_def invoke_def memory_removeObjects_def)
  show "objects (store (snd (deleteFolder_interleaved memoryClient this prefix other s)))
         = filter (\<lambda>(k, object). \<not> (fst k = bucketName this \<and>
                     snd k \<in> set (map (\<lambda>x. snd (fst x))
                        (filter (\<lambda>(k, object). fst k = bucketName this \<and> isPrefixOf prefix (snd k))
                           (objects (store s))))))
             (objects (other (store s)))"
    if "bucketName this \<in> set (buckets (other (store s)))"
    unfolding eq using that
    apply (simp add: deleteFolder_remove_def Let_def invoke_def memory_removeObjects_def)
    apply (simp only: memory_item_name)
    done
  show "buckets (store (snd (deleteFolder_interleaved memoryClient this prefix other s)))
         = buckets (other (store s))"
    if "bucketName this \<in> set (buckets (other (store s)))"
    unfolding eq using that
    by (simp add: deleteFolder_remove_def Let_def invoke_def memory_removeObjects_def)
qed

lemma memory_deleteFolder_needs_bucket:
  assumes "fst (deleteFolder memoryClient this prefix s) = Inr ()"
  shows "bucketName this \<in> set (buckets (store s))"
proof (rule ccontr)
  assume "bucketName this \<notin> set (buckets (store s))"
  then have "client_listObjectsV2 memoryClient (bucketName this) prefix True (store s)
             = (Inl noSuchBucket, store s)"
    by (simp add: memory_list_fails)
  from deleteFolder_list_fails(1) [OF this] assms show False by simp
qed

lemma memory_listing_empty_after_deleteFolder:
  assumes ok: "fst (deleteFolder memoryClient this prefix s) = Inr ()"
  shows "memory_listObjectsV2 (bucketName this) prefix True
           (store (snd (deleteFolder memoryClient this prefix s)))
         = (Inr [], store (snd (deleteFolder memoryClient this prefix s)))"
proof -
  have b: "bucketName this \<in> set (buckets (store s))"
    by (rule memory_deleteFolder_needs_bucket [OF ok])
  let ?s' = "snd (deleteFolder memoryClient this prefix s)"
  have objs: "objects (store ?s')
         = filter (\<lambda>(k, object). \<not> (fst k = bucketName this \<and>
                     snd k \<in> set (map (\<lambda>x. snd (fst x))
                        (filter (\<lambda>(k, object). fst k = bucketName this \<and> isPrefixOf prefix (snd k))
                           (objects (store s))))))
             (objects (store s))"
    and bs: "buckets (store ?s') = buckets (store s)"
    unfolding deleteFolder_eq_interleaved
    using memory_deleteFolder_store(2,3) [OF b, where other = "\<lambda>st. st" and prefix = prefix] b
    by simp_all
  have "filter (\<lambda>(k, object). fst k = bucketName this \<and> isPrefixOf prefix (snd k))
          (objects (store ?s')) = []"
    unfolding objs by (auto simp add: filter_empty_conv intro: rev_image_eqI)
  then show ?thesis using b bs by (simp add: memory_listObjectsV2_def)
qed

lemma memory_write_between_survives:
  assumes b: "bucketName this \<in> set (buckets (store s))"
    and absent: "map_of (objects (store s)) (bucketName this, key) = None"
  shows "map_of (objects (store (snd
            (deleteFolder_interleaved memoryClient this prefix
               (\<lambda>st. snd (memory_putObject (bucketName this) key data meta st)) s))))
           (bucketName this, key)
         = Some (data, meta)"
proof -
  let ?other = "\<lambda>st. snd (memory_putObject (bucketName this) key data meta st)"
  let ?listed = "map (\<lambda>x. snd (fst x))
                   (filter (\<lambda>(k, object). fst k = bucketName this \<and> isPrefixOf prefix (snd k))
                      (objects (store s)))"
  have other: "?other (store s)
               = (store s)\<lparr>objects := AList.update (bucketName this, key) (data, meta) (objects (store s))\<rparr>"
    using b by (simp add: memory_putObject_def)
  have b': "bucketName this \<in> set (buckets (?other (store s)))"
    unfolding other using b by simp
  have "key \<notin> set ?listed"
  proof
    assume "key \<in> set ?listed"
    then obtain x where "x \<in> set (objects (store s))" "fst x = (bucketName this, key)"
      by (auto simp add: prod_eq_iff)
    then have "(bucketName this, key) \<in> fst ` set (objects (store s))" by force
    with absent show False by (simp add: map_of_eq_None_iff)
  qed
  then have keep: "\<not> (fst (bucketName this, key) = bucketName this
                      \<and> snd (bucketName this, key) \<in> set ?listed)" by simp
  have "map_of (filter (\<lambda>(k, object). \<not> (fst k = bucketName this \<and> snd k \<in> set ?listed))
                  (objects (?other (store s)))) (bucketName this, key)
        = map_of (objects (?other (store s))) (bucketName this, key)"
    using keep map_of_filter_key [of "\<lambda>k. \<not> (fst k = bucketName this \<and> snd k \<in> set ?listed)"
        "objects (?other (store s))" "(bucketName this, key)"]
    by simp
  also have "\<dots> = Some (data, meta)"
    unfolding other by (simp add: update_conv')
  finally show ?thesis
    unfolding memory_deleteFolder_store(2) [OF b, where other = "?other" and prefix = prefix, OF b'] .
qed

text \<open>
  C5. When the listing returns, \<open>deleteFolder\<close> makes two calls: the recursive listing
  under the prefix and one \<^verbatim>\<open>removeObjects\<close> of exactly the names listed, also when another
  writer changes the store between the two; if the removal rejects, the error raised names
  bucket, slash, prefix. On the store in memory: an object written between the listing
  and the removal, under a name that was not there before, is still there afterwards; and
  after \<open>deleteFolder\<close> has returned with no step in between, the listing under the prefix
  is empty.
\<close>

theorem deleteFolder_removes_exactly_the_listed_set:
  assumes list: "client_listObjectsV2 client (bucketName this) prefix True (store s) = (Inr items, st1)"
  shows "newCalls s (snd (deleteFolder client this prefix s))
           = [ListObjectsV2 (bucketName this) prefix True,
              RemoveObjects (bucketName this) (map name items)]
       \<and> newCalls s (snd (deleteFolder_interleaved client this prefix other s))
           = [ListObjectsV2 (bucketName this) prefix True,
              RemoveObjects (bucketName this) (map name items)]
       \<and> (\<forall>e st2. client_removeObjects client (bucketName this) (map name items) st1 = (Inl e, st2)
            \<longrightarrow> fst (deleteFolder client this prefix s)
                = Inl (InternalServerErrorException
                        (str ''There was an error while deleting the folder at the specified path: ''
                         @ bucketName this @ str ''/'' @ prefix @ str ''.'')))
       \<and> (bucketName this' \<in> set (buckets (store m))
            \<and> map_of (objects (store m)) (bucketName this', key) = None
            \<longrightarrow> map_of (objects (store (snd
                    (deleteFolder_interleaved memoryClient this' prefix'
                       (\<lambda>st. snd (memory_putObject (bucketName this') key data meta st)) m))))
                  (bucketName this', key)
                = Some (data, meta))
       \<and> (fst (deleteFolder memoryClient this' prefix' m) = Inr ()
            \<longrightarrow> memory_listObjectsV2 (bucketName this') prefix' True
                  (store (snd (deleteFolder memoryClient this' prefix' m)))
                = (Inr [], store (snd (deleteFolder memoryClient this' prefix' m))))"
proof -
  have 1: "newCalls s (snd (deleteFolder_interleaved client this prefix f s))
           = [ListObjectsV2 (bucketName this) prefix True,
              RemoveObjects (bucketName this) (map name items)]" for f
    by (rule newCalls_append) (rule deleteFolder_interleaved_trace [OF list])
  have 3: "fst (deleteFolder client this prefix s)
                = Inl (InternalServerErrorException
                        (str ''There was an error while deleting the folder at the specified path: ''
                         @ bucketName this @ str ''/'' @ prefix @ str ''.''))"
    if "client_removeObjects client (bucketName this) (map name items) st1 = (Inl e, st2)" for e st2
    unfolding deleteFolder_eq_interleaved deleteFolder_interleaved_listed [OF list]
    by (rule deleteFolder_remove_rejected(1)) (simp add: that)
  from 1 [of other] 1 [of "\<lambda>st. st"] 3 memory_write_between_survives
    memory_listing_empty_after_deleteFolder
  show ?thesis unfolding deleteFolder_eq_interleaved by blast
qed

theorem deleteFolder_removes_exactly_the_listed_set_witness:
  "newCalls (start twoUsers) (snd (deleteFolder memoryClient defaultService (str ''u1'') (start twoUsers)))
     = [ListObjectsV2 (str ''default'') (str ''u1'') True,
        RemoveObjects (str ''default'') [str ''u1/pictures/a.jpg'', str ''u1/resumes/cv.pdf'']]
   \<and> fst (deleteFolder (rejecting_removeObjects (StoreError (str ''AccessDenied'')) memoryClient)
            defaultService (str ''u1'') (start twoUsers))
     = Inl (InternalServerErrorException
             (str ''There was an error while deleting the folder at the specified path: default/u1.''))
   \<and> map_of (objects (store (snd
         (deleteFolder_interleaved memoryClient defaultService (str ''u1'')
            (\<lambda>st. snd (memory_putObject (str ''default'') (str ''u1/pictures/new.jpg'') [9] [] st))
            (start twoUsers)))))
       (str ''default'', str ''u1/pictures/new.jpg'')
     = Some ([9], [])
   \<and> fst (memory_listObjectsV2 (str ''default'') (str ''u1'') True
           (store (snd (deleteFolder memoryClient defaultService (str ''u1'') (start twoUsers)))))
     = Inr []"
proof -
  let ?items = "[\<lparr>name = str ''u1/pictures/a.jpg'', size = 1\<rparr>,
                 \<lparr>name = str ''u1/resumes/cv.pdf'', size = 1\<rparr>]"
  have list: "client_listObjectsV2 c (bucketName defaultService) (str ''u1'') True
                (store (start twoUsers)) = (Inr ?items, twoUsers)"
    if "client_listObjectsV2 c = memory_listObjectsV2" for c
    by (simp add: that memory_eval take_str)
  have c2: "client_listObjectsV2 (rejecting_removeObjects (StoreError (str ''AccessDenied'')) memoryClient)
            = memory_listObjectsV2"
    by (simp add: rejecting_removeObjects_def)
  have rm: "client_removeObjects (rejecting_removeObjects (StoreError (str ''AccessDenied'')) memoryClient)
              (bucketName defaultService) (map name ?items) twoUsers
            = (Inl (StoreError (str ''AccessDenied'')), twoUsers)"
    by (simp add: rejecting_removeObjects_def)
  have absent: "map_of (objects (store (start twoUsers)))
                  (bucketName defaultService, str ''u1/pictures/new.jpg'') = None"
    by simp
  have ok: "fst (deleteFolder memoryClient defaultService (str ''u1'') (start twoUsers)) = Inr ()"
    by (simp add: deleteFolder_def deleteFolder_list_def deleteFolder_remove_def memory_eval
        service_eval)
  from deleteFolder_removes_exactly_the_listed_set
         [OF list, of memoryClient, where m = "start twoUsers" and this' = defaultService
            and key = "str ''u1/pictures/new.jpg''" and data = "[9]" and meta = "[]"
            and prefix' = "str ''u1''"]
       deleteFolder_removes_exactly_the_listed_set
         [OF list [OF c2], where m = "start twoUsers" and this' = defaultService
            and key = "str ''u1/pictures/new.jpg''" and data = "[9]" and meta = "[]"
            and prefix' = "str ''u1''"]
       rm absent ok
  show ?thesis by (simp add: str_append)
qed

text \<open>
  C10. When the listing under the prefix is empty, \<open>deleteFolder\<close> still calls
  \<^verbatim>\<open>removeObjects\<close>, with the empty list, and returns normally when that call resolves; on
  the store in memory it does resolve, and nothing is removed.
\<close>

theorem deleteFolder_of_empty_prefix_succeeds:
  assumes list: "client_listObjectsV2 client (bucketName this) prefix True (store s) = (Inr [], st1)"
    and rm: "client_removeObjects client (bucketName this) [] st1 = (Inr u, st2)"
  shows "fst (deleteFolder client this prefix s) = Inr ()
       \<and> newCalls s (snd (deleteFolder client this prefix s))
           = [ListObjectsV2 (bucketName this) prefix True, RemoveObjects (bucketName this) []]
       \<and> store (snd (deleteFolder client this prefix s)) = st2
       \<and> (bucketName this' \<in> set (buckets (store m))
            \<and> filter (\<lambda>(k, object). fst k = bucketName this' \<and> isPrefixOf prefix' (snd k))
                 (objects (store m)) = []
            \<longrightarrow> fst (deleteFolder memoryClient this' prefix' m) = Inr ()
                \<and> objects (store (snd (deleteFolder memoryClient this' prefix' m)))
                  = objects (store m))"
proof -
  let ?s1 = "s\<lparr>trace := trace s @ [ListObjectsV2 (bucketName this) prefix True], store := st1\<rparr>"
  have eq: "deleteFolder client this prefix s = deleteFolder_remove client this prefix [] ?s1"
    unfolding deleteFolder_eq_interleaved using deleteFolder_interleaved_listed [OF list] by simp
  have rm': "client_removeObjects client (bucketName this) [] (store ?s1) = (Inr u, st2)"
    using rm by simp
  have a: "fst (deleteFolder client this prefix s) = Inr ()"
    unfolding eq by (rule deleteFolder_remove_resolved(1) [OF rm'])
  have b: "newCalls s (snd (deleteFolder client this prefix s))
           = [ListObjectsV2 (bucketName this) prefix True, RemoveObjects (bucketName this) []]"
    unfolding eq by (rule newCalls_append) (simp add: deleteFolder_remove_resolved(2) [OF rm'])
  have c: "store (snd (deleteFolder client this prefix s)) = st2"
    unfolding eq by (rule deleteFolder_remove_resolved(3) [OF rm'])
  have d: "fst (deleteFolder memoryClient this' prefix' m) = Inr ()
                \<and> objects (store (snd (deleteFolder memoryClient this' prefix' m)))
                  = objects (store m)"
    if bk: "bucketName this' \<in> set (buckets (store m))"
      and none: "filter (\<lambda>(k, object). fst k = bucketName this' \<and> isPrefixOf prefix' (snd k))
                 (objects (store m)) = []"
    unfolding deleteFolder_eq_interleaved
    using memory_deleteFolder_store(1,2) [OF bk, where other = "\<lambda>st. st" and prefix = prefix'] bk
    by (simp add: none)
  from a b c d show ?thesis by blast
qed

theorem deleteFolder_of_empty_prefix_succeeds_witness:
  "fst (deleteFolder memoryClient defaultService (str ''u3'') (start twoUsers)) = Inr ()
   \<and> newCalls (start twoUsers) (snd (deleteFolder memoryClient defaultService (str ''u3'') (start twoUsers)))
       = [ListObjectsV2 (str ''default'') (str ''u3'') True, RemoveObjects (str ''default'') []]
   \<and> store (snd (deleteFolder memoryClient defaultService (str ''u3'') (start twoUsers))) = twoUsers"
proof -
  have list: "client_listObjectsV2 memoryClient (bucketName defaultService) (str ''u3'') True
                (store (start twoUsers)) = (Inr [], twoUsers)"
    by (simp add: memory_eval take_str)
  have rm: "client_removeObjects memoryClient (bucketName defaultService) [] twoUsers
            = (Inr (), twoUsers)"
    by (simp add: memory_eval twoUsers_def)
  from deleteFolder_of_empty_prefix_succeeds [OF list rm] show ?thesis by simp
qed

section \<open>The bucket policy and onModuleInit\<close>

lemma GetSubstitution_plain:
  "36 \<notin> set template \<Longrightarrow> GetSubstitution matched before after template = template"
  by (induction matched before after template rule: GetSubstitution.induct) auto

lemma replaceAll_plain:
  "36 \<notin> set replacement \<Longrightarrow>
   replaceAll pattern replacement before subject = replaceEach pattern replacement subject"
proof (induction pattern replacement before subject rule: replaceAll.induct)
  case (1 pattern replacement before)
  then show ?case by simp
next
  case (2 pattern replacement before c cs)
  show ?case
  proof (cases "pattern \<noteq> [] \<and> take (length pattern) (c # cs) = pattern")
    case True
    have "replaceAll pattern replacement before (c # cs)
          = GetSubstitution pattern before (drop (length pattern) (c # cs)) replacement
            @ replaceAll pattern replacement (before @ pattern) (drop (length pattern) (c # cs))"
      by (simp only: replaceAll.simps if_P [OF True])
    moreover have "replaceEach pattern replacement (c # cs)
          = replacement @ replaceEach pattern replacement (drop (length pattern) (c # cs))"
      by (simp only: replaceEach.simps if_P [OF True])
    ultimately show ?thesis
      using "2.IH"(1) [OF True "2.prems"] by (simp only: GetSubstitution_plain [OF "2.prems"])
  next
    case False
    have "replaceAll pattern replacement before (c # cs)
          = c # replaceAll pattern replacement (before @ [c]) cs"
      by (simp only: replaceAll.simps if_not_P [OF False])
    moreover have "replaceEach pattern replacement (c # cs) = c # replaceEach pattern replacement cs"
      by (simp only: replaceEach.simps if_not_P [OF False])
    ultimately show ?thesis
      using "2.IH"(2) [OF False "2.prems"] by (simp only:)
  qed
qed

lemma stringify_policy:
  \<open>stringify PUBLIC_ACCESS_POLICY =
     str (''{"Version":"2012-10-17","Statement":[{"Sid":"PublicAccess","Effect":"Allow",''
          @ ''"Action":["s3:GetObject"],"Principal":{"AWS":["*"]},"Resource":[''
          @ ''"arn:aws:s3:::{{bucketName}}/*/pictures/*","arn:aws:s3:::{{bucketName}}/*/previews/*",''
          @ ''"arn:aws:s3:::{{bucketName}}/*/resumes/*"]}]}'')\<close>
  by (simp add: PUBLIC_ACCESS_POLICY_def QuoteJSONString_def str_def unit_of_char_def)

lemma replaceEach_policy:
  \<open>replaceEach (str ''{{bucketName}}'') b (stringify PUBLIC_ACCESS_POLICY) =
     str (''{"Version":"2012-10-17","Statement":[{"Sid":"PublicAccess","Effect":"Allow",''
          @ ''"Action":["s3:GetObject"],"Principal":{"AWS":["*"]},"Resource":[''
          @ ''"arn:aws:s3:::'') @ b @ str ''/*/pictures/*","arn:aws:s3:::'' @ b
     @ str ''/*/previews/*","arn:aws:s3:::'' @ b @ str ''/*/resumes/*"]}]}''\<close>
  unfolding stringify_policy
  by (simp add: str_def unit_of_char_def)

lemma noBuckets_simps [simp]:
  "buckets noBuckets = []" "policies noBuckets = []" "objects noBuckets = []"
  by (simp_all add: noBuckets_def)

lemma bucketPolicy_text:
  assumes "36 \<notin> set b"
  shows \<open>bucketPolicy b =
     str (''{"Version":"2012-10-17","Statement":[{"Sid":"PublicAccess","Effect":"Allow",''
          @ ''"Action":["s3:GetObject"],"Principal":{"AWS":["*"]},"Resource":[''
          @ ''"arn:aws:s3:::'') @ b @ str ''/*/pictures/*","arn:aws:s3:::'' @ b
     @ str ''/*/previews/*","arn:aws:s3:::'' @ b @ str ''/*/resumes/*"]}]}''\<close>
  unfolding bucketPolicy_def replaceAll_plain [OF assms] by (rule replaceEach_policy)

lemma onModuleInit_create_make_fails:
  assumes "client_makeBucket client b (store s) = (Inl e, st2)"
  shows "fst (onModuleInit_create client b s)
         = Inl (InternalServerErrorException (str ''There was an error while creating the storage bucket.''))"
    and "trace (snd (onModuleInit_create client b s)) = trace s @ [MakeBucket b]"
    and "store (snd (onModuleInit_create client b s)) = st2"
  using assms by (simp_all add: onModuleInit_create_def Let_def invoke_resolved)

lemma onModuleInit_create_policy_fails:
  assumes "client_makeBucket client b (store s) = (Inr u, st2)"
    and "client_setBucketPolicy client b (bucketPolicy b) st2 = (Inl e, st3)"
  shows "fst (onModuleInit_create client b s)
         = Inl (InternalServerErrorException
                 (str ''There was an error while applying the policy to the storage bucket.''))"
    and "trace (snd (onModuleInit_create client b s))
         = trace s @ [MakeBucket b, SetBucketPolicy b (bucketPolicy b)]"
    and "store (snd (onModuleInit_create client b s)) = st3"
  using assms by (simp_all add: onModuleInit_create_def Let_def invoke_resolved)

lemma onModuleInit_create_ok:
  assumes "client_makeBucket client b (store s) = (Inr u, st2)"
    and "client_setBucketPolicy client b (bucketPolicy b) st2 = (Inr u', st3)"
  shows "fst (onModuleInit_create client b s) = Inr ()"
    and "trace (snd (onModuleInit_create client b s))
         = trace s @ [MakeBucket b, SetBucketPolicy b (bucketPolicy b)]"
    and "store (snd (onModuleInit_create client b s)) = st3"
  using assms by (simp_all add: onModuleInit_create_def Let_def invoke_resolved)

lemma onModuleInit_try_check_fails:
  assumes "client_bucketExists client b (store s) = (Inl e, st1)"
  shows "fst (onModuleInit_try client b s) = Inl e"
    and "trace (snd (onModuleInit_try client b s)) = trace s @ [BucketExists b]"
    and "store (snd (onModuleInit_try client b s)) = st1"
  using assms by (simp_all add: onModuleInit_try_def Let_def invoke_resolved)

lemma onModuleInit_try_exists:
  assumes "client_bucketExists client b (store s) = (Inr True, st1)"
  shows "fst (onModuleInit_try client b s) = Inr ()"
    and "trace (snd (onModuleInit_try client b s)) = trace s @ [BucketExists b]"
    and "store (snd (onModuleInit_try client b s)) = st1"
  using assms by (simp_all add: onModuleInit_try_def Let_def invoke_resolved)

lemma onModuleInit_try_absent:
  assumes "client_bucketExists client b (store s) = (Inr False, st1)"
  shows "onModuleInit_try client b s
         = onModuleInit_create client b
             ((logger_log (str ''Checking if bucket '' @ b @ str '' exists...'') s)
                \<lparr>store := st1, trace := trace s @ [BucketExists b]\<rparr>)"
  using assms by (simp add: onModuleInit_try_def Let_def invoke_resolved)

lemma onModuleInit_skip:
  assumes "STORAGE_BUCKET configService = Some b"
    and "STORAGE_SKIP_BUCKET_CHECK configService = Some True"
  shows "onModuleInit client configService s
         = (Inr \<lparr>bucketName = b\<rparr>,
            s\<lparr>logs := logs s @
                 [Entry WARN (str ''Skipping the verification of whether the storage bucket exists.'') None,
                  Entry WARN
                    (str ''Make sure that the following paths are publicly accessible: `/{pictures,previews,resumes}/*`'')
                    None]\<rparr>)"
  using assms by (simp add: onModuleInit_def getOrThrow_def logger_warn_def)

lemma onModuleInit_checked:
  assumes "STORAGE_BUCKET configService = Some b"
    and "STORAGE_SKIP_BUCKET_CHECK configService = Some False"
  shows "fst (onModuleInit_try client b s) = Inl e \<Longrightarrow>
           fst (onModuleInit client configService s) = Inl (InternalServerErrorExceptionOf e)"
    and "fst (onModuleInit_try client b s) = Inr u \<Longrightarrow>
           fst (onModuleInit client configService s) = Inr \<lparr>bucketName = b\<rparr>"
    and "trace (snd (onModuleInit client configService s)) = trace (snd (onModuleInit_try client b s))"
    and "store (snd (onModuleInit client configService s)) = store (snd (onModuleInit_try client b s))"
  using assms
  by (cases "onModuleInit_try client b s"; cases "fst (onModuleInit_try client b s)";
      simp add: onModuleInit_def getOrThrow_def)+

lemma onModuleInit_errors:
  assumes "STORAGE_BUCKET configService = Some b"
    and "STORAGE_SKIP_BUCKET_CHECK configService = Some skip"
    and "fst (onModuleInit client configService s) = Inl e"
  shows "isInternalServerError e"
proof (cases skip)
  case True
  with assms onModuleInit_skip [of configService b client s] show ?thesis by simp
next
  case False
  with assms(2) have skipF: "STORAGE_SKIP_BUCKET_CHECK configService = Some False" by simp
  show ?thesis
  proof (cases "fst (onModuleInit_try client b s)")
    case (Inl e')
    from onModuleInit_checked(1) [OF assms(1) skipF Inl] assms(3)
    show ?thesis by auto
  next
    case (Inr u)
    from onModuleInit_checked(2) [OF assms(1) skipF Inr] assms(3)
    show ?thesis by simp
  qed
qed

lemma bucketExists_rejected:
  assumes "client_bucketExists client (bucketName this) (store s) = (Inl e, st1)"
  shows "fst (bucketExists client this s) = Inl e"
  using assms by (simp add: bucketExists_def bucketExists_try_def invoke_resolved)

lemma uploadObject_errors:
  assumes url: "STORAGE_URL configService = Some storageUrl"
    and enc: "encodeURIComponent filename = Inr encodedFilename"
    and err: "fst (uploadObject client toBuffer configService this userId type buffer filename s) = Inl e"
  shows "e = InternalServerErrorException (str ''There was an error while uploading the file.'')"
proof -
  have path: "spec_objectPath userId type filename
              = Inr (userId @ str ''/'' @ UploadType_string type @ str ''/'' @ encodedFilename @ str ''.''
                     @ (if type = resumes then str ''pdf'' else str ''jpg''))"
    using enc by (simp add: spec_objectPath_def)
  from uploadObject_outcome [OF url enc path, where client = client and toBuffer = toBuffer
      and this = this and buffer = buffer and s = s] err
  show ?thesis by (elim disjE exE conjE) (simp_all add: uploadError_def)
qed

lemma deleteObject_errors:
  assumes path: "spec_objectPath userId type filename = Inr path"
    and err: "fst (deleteObject client this userId type filename s) = Inl e"
  shows "e = InternalServerErrorException
               (str ''There was an error while deleting the document at the specified path: ''
                @ path @ str ''.'')"
proof -
  obtain r st where rm: "client_removeObject client (bucketName this) path (store s) = (r, st)"
    by (cases "client_removeObject client (bucketName this) path (store s)") blast
  show ?thesis
  proof (cases r)
    case (Inl e')
    from deleteObject_rejected(1) [OF path rm [unfolded Inl]] err show ?thesis by simp
  next
    case (Inr u)
    from deleteObject_resolved(1) [OF path rm [unfolded Inr]] err show ?thesis by simp
  qed
qed

lemma deleteFolder_errors:
  assumes list: "client_listObjectsV2 client (bucketName this) prefix True (store s) = (Inr items, st1)"
    and err: "fst (deleteFolder client this prefix s) = Inl e"
  shows "e = InternalServerErrorException
               (str ''There was an error while deleting the folder at the specified path: ''
                @ bucketName this @ str ''/'' @ prefix @ str ''.'')"
proof -
  let ?s1 = "s\<lparr>trace := trace s @ [ListObjectsV2 (bucketName this) prefix True], store := st1\<rparr>"
  have eq: "deleteFolder client this prefix s
            = deleteFolder_remove client this prefix (map name items) ?s1"
    unfolding deleteFolder_eq_interleaved using deleteFolder_interleaved_listed [OF list] by simp
  obtain r st where rm: "client_removeObjects client (bucketName this) (map name items) (store ?s1) = (r, st)"
    by (cases "client_removeObjects client (bucketName this) (map name items) (store ?s1)") blast
  show ?thesis
  proof (cases r)
    case (Inl e')
    from deleteFolder_remove_rejected(1) [OF rm [unfolded Inl]] err show ?thesis
      unfolding eq by simp
  next
    case (Inr u)
    from deleteFolder_remove_resolved(1) [OF rm [unfolded Inr]] err show ?thesis
      unfolding eq by simp
  qed
qed

lemma onModuleInit_check_rejected:
  assumes bucket: "STORAGE_BUCKET configService = Some b"
    and check: "STORAGE_SKIP_BUCKET_CHECK configService = Some False"
    and be: "client_bucketExists client b (store s) = (Inl e, st1)"
  shows "fst (onModuleInit client configService s) = Inl (InternalServerErrorExceptionOf e)"
  by (rule onModuleInit_checked(1) [OF bucket check onModuleInit_try_check_fails(1) [OF be]])

lemma onModuleInit_make_rejected:
  assumes bucket: "STORAGE_BUCKET configService = Some b"
    and check: "STORAGE_SKIP_BUCKET_CHECK configService = Some False"
    and be: "client_bucketExists client b (store s) = (Inr False, st1)"
    and mb: "client_makeBucket client b st1 = (Inl e, st2)"
  shows "fst (onModuleInit client configService s)
         = Inl (InternalServerErrorExceptionOf
                 (InternalServerErrorException
                    (str ''There was an error while creating the storage bucket.'')))"
proof -
  let ?s1 = "(logger_log (str ''Checking if bucket '' @ b @ str '' exists...'') s)
                \<lparr>store := st1, trace := trace s @ [BucketExists b]\<rparr>"
  have mb': "client_makeBucket client b (store ?s1) = (Inl e, st2)" using mb by simp
  have "fst (onModuleInit_try client b s)
        = Inl (InternalServerErrorException
                 (str ''There was an error while creating the storage bucket.''))"
    unfolding onModuleInit_try_absent [OF be] by (rule onModuleInit_create_make_fails(1) [OF mb'])
  then show ?thesis by (rule onModuleInit_checked(1) [OF bucket check])
qed

lemma onModuleInit_policy_rejected:
  assumes bucket: "STORAGE_BUCKET configService = Some b"
    and check: "STORAGE_SKIP_BUCKET_CHECK configService = Some False"
    and be: "client_bucketExists client b (store s) = (Inr False, st1)"
    and mb: "client_makeBucket client b st1 = (Inr (), st2)"
    and sp: "client_setBucketPolicy client b (bucketPolicy b) st2 = (Inl e, st3)"
  shows "fst (onModuleInit client configService s)
         = Inl (InternalServerErrorExceptionOf
                 (InternalServerErrorException
                    (str ''There was an error while applying the policy to the storage bucket.'')))"
proof -
  let ?s1 = "(logger_log (str ''Checking if bucket '' @ b @ str '' exists...'') s)
                \<lparr>store := st1, trace := trace s @ [BucketExists b]\<rparr>"
  have mb': "client_makeBucket client b (store ?s1) = (Inr (), st2)" using mb by simp
  have "fst (onModuleInit_try client b s)
        = Inl (InternalServerErrorException
                 (str ''There was an error while applying the policy to the storage bucket.''))"
    unfolding onModuleInit_try_absent [OF be]
    by (rule onModuleInit_create_policy_fails(1) [OF mb' sp])
  then show ?thesis by (rule onModuleInit_checked(1) [OF bucket check])
qed

lemma uploadObject_put_rejected:
  assumes url: "STORAGE_URL configService = Some storageUrl"
    and enc: "encodeURIComponent filename = Inr encodedFilename"
    and path: "spec_objectPath userId type filename = Inr path"
    and resize: "uploadObject_resize toBuffer (if type = resumes then str ''pdf'' else str ''jpg'') buffer
                 = Inr buffer'"
    and put: "client_putObject client (bucketName this) path buffer'
                (objectMetadata type encodedFilename) (store s) = (Inl e, st1)"
  shows "fst (uploadObject client toBuffer configService this userId type buffer filename s)
         = Inl (InternalServerErrorException (str ''There was an error while uploading the file.''))"
  using uploadObject_outcome [OF url enc path, where client = client and toBuffer = toBuffer
      and this = this and buffer = buffer and s = s] resize put
  by (elim disjE exE conjE) (simp_all add: uploadError_def)

lemma deleteFolder_removal_rejected:
  assumes list: "client_listObjectsV2 client (bucketName this) prefix True (store s) = (Inr items, st1)"
    and rm: "client_removeObjects client (bucketName this) (map name items) st1 = (Inl e, st2)"
  shows "fst (deleteFolder client this prefix s)
         = Inl (InternalServerErrorException
                 (str ''There was an error while deleting the folder at the specified path: ''
                  @ bucketName this @ str ''/'' @ prefix @ str ''.''))"
  unfolding deleteFolder_eq_interleaved deleteFolder_interleaved_listed [OF list]
  by (rule deleteFolder_remove_rejected(1)) (simp add: rm)

text \<open>
  C4. \<open>onModuleInit\<close>, with the bucket name configured. With the skip flag set it logs two
  warnings and returns: the trace and the store are as before. Otherwise: if the bucket
  exists, the existence check is the only call; if it does not, the bucket is created and
  then the policy is applied, the policy being the public-read JSON with the bucket name
  in its three resource strings (for a bucket name without a dollar sign, which
  \<^verbatim>\<open>replace\<close> would expand); and if the check, the creation or the application fails, an
  \<^verbatim>\<open>InternalServerErrorException\<close> is raised.
\<close>

theorem onModuleInit_provisions_the_bucket:
  fixes client configService s b
  defines "r \<equiv> onModuleInit client configService s"
  assumes bucket: "STORAGE_BUCKET configService = Some b"
  shows \<open>(STORAGE_SKIP_BUCKET_CHECK configService = Some True \<longrightarrow>
           r = (Inr \<lparr>bucketName = b\<rparr>,
                s\<lparr>logs := logs s @
                  [Entry WARN (str ''Skipping the verification of whether the storage bucket exists.'') None,
                   Entry WARN
                     (str ''Make sure that the following paths are publicly accessible: `/{pictures,previews,resumes}/*`'')
                     None]\<rparr>))
       \<and> (STORAGE_SKIP_BUCKET_CHECK configService = Some False \<longrightarrow>
            (\<forall>st1. client_bucketExists client b (store s) = (Inr True, st1)
               \<longrightarrow> fst r = Inr \<lparr>bucketName = b\<rparr> \<and> newCalls s (snd r) = [BucketExists b]
                   \<and> store (snd r) = st1)
          \<and> (\<forall>st1 st2 st3.
                client_bucketExists client b (store s) = (Inr False, st1)
                \<and> client_makeBucket client b st1 = (Inr (), st2)
                \<and> client_setBucketPolicy client b (bucketPolicy b) st2 = (Inr (), st3)
               \<longrightarrow> fst r = Inr \<lparr>bucketName = b\<rparr>
                   \<and> newCalls s (snd r)
                       = [BucketExists b, MakeBucket b, SetBucketPolicy b (bucketPolicy b)]
                   \<and> store (snd r) = st3)
          \<and> (\<forall>e st1. client_bucketExists client b (store s) = (Inl e, st1)
               \<longrightarrow> fst r = Inl (InternalServerErrorExceptionOf e)
                   \<and> newCalls s (snd r) = [BucketExists b])
          \<and> (\<forall>st1 e st2.
                client_bucketExists client b (store s) = (Inr False, st1)
                \<and> client_makeBucket client b st1 = (Inl e, st2)
               \<longrightarrow> fst r = Inl (InternalServerErrorExceptionOf
                             (InternalServerErrorException
                                (str ''There was an error while creating the storage bucket.'')))
                   \<and> newCalls s (snd r) = [BucketExists b, MakeBucket b])
          \<and> (\<forall>st1 st2 e st3.
                client_bucketExists client b (store s) = (Inr False, st1)
                \<and> client_makeBucket client b st1 = (Inr (), st2)
                \<and> client_setBucketPolicy client b (bucketPolicy b) st2 = (Inl e, st3)
               \<longrightarrow> fst r = Inl (InternalServerErrorExceptionOf
                             (InternalServerErrorException
                                (str ''There was an error while applying the policy to the storage bucket.'')))
                   \<and> newCalls s (snd r)
                       = [BucketExists b, MakeBucket b, SetBucketPolicy b (bucketPolicy b)]))
       \<and> (36 \<notin> set b \<longrightarrow>
            bucketPolicy b =
              str (''{"Version":"2012-10-17","Statement":[{"Sid":"PublicAccess","Effect":"Allow",''
                   @ ''"Action":["s3:GetObject"],"Principal":{"AWS":["*"]},"Resource":[''
                   @ ''"arn:aws:s3:::'') @ b @ str ''/*/pictures/*","arn:aws:s3:::'' @ b
              @ str ''/*/previews/*","arn:aws:s3:::'' @ b @ str ''/*/resumes/*"]}]}'')\<close>
proof -
  have skip: "r = (Inr \<lparr>bucketName = b\<rparr>,
                s\<lparr>logs := logs s @
                  [Entry WARN (str ''Skipping the verification of whether the storage bucket exists.'') None,
                   Entry WARN
                     (str ''Make sure that the following paths are publicly accessible: `/{pictures,previews,resumes}/*`'')
                     None]\<rparr>)"
    if "STORAGE_SKIP_BUCKET_CHECK configService = Some True"
    unfolding r_def by (rule onModuleInit_skip [OF bucket that])
  {
    assume check: "STORAGE_SKIP_BUCKET_CHECK configService = Some False"
    note chk = onModuleInit_checked [OF bucket check, of client s, folded r_def]
    let ?s1 = "\<lambda>st1. (logger_log (str ''Checking if bucket '' @ b @ str '' exists...'') s)
                \<lparr>store := st1, trace := trace s @ [BucketExists b]\<rparr>"
    have exists: "fst r = Inr \<lparr>bucketName = b\<rparr> \<and> newCalls s (snd r) = [BucketExists b]
                   \<and> store (snd r) = st1"
      if be: "client_bucketExists client b (store s) = (Inr True, st1)" for st1
      using chk(2) [OF onModuleInit_try_exists(1) [OF be]] chk(3,4)
        onModuleInit_try_exists(2,3) [OF be]
      by (simp add: newCalls_def)
    have created: "fst r = Inr \<lparr>bucketName = b\<rparr>
                   \<and> newCalls s (snd r)
                       = [BucketExists b, MakeBucket b, SetBucketPolicy b (bucketPolicy b)]
                   \<and> store (snd r) = st3"
      if be: "client_bucketExists client b (store s) = (Inr False, st1)"
        and mb: "client_makeBucket client b st1 = (Inr (), st2)"
        and sp: "client_setBucketPolicy client b (bucketPolicy b) st2 = (Inr (), st3)"
      for st1 st2 st3
    proof -
      have mb': "client_makeBucket client b (store (?s1 st1)) = (Inr (), st2)" using mb by simp
      note c = onModuleInit_create_ok [OF mb' sp]
      show ?thesis
        using chk(2) [of "()"] chk(3,4) c
        unfolding onModuleInit_try_absent [OF be]
        by (simp add: newCalls_def)
    qed
    have check_fails: "fst r = Inl (InternalServerErrorExceptionOf e)
                   \<and> newCalls s (snd r) = [BucketExists b]"
      if be: "client_bucketExists client b (store s) = (Inl e, st1)" for e st1
      using chk(1) [OF onModuleInit_try_check_fails(1) [OF be]] chk(3)
        onModuleInit_try_check_fails(2) [OF be]
      by (simp add: newCalls_def)
    have make_fails: "fst r = Inl (InternalServerErrorExceptionOf
                             (InternalServerErrorException
                                (str ''There was an error while creating the storage bucket.'')))
                   \<and> newCalls s (snd r) = [BucketExists b, MakeBucket b]"
      if be: "client_bucketExists client b (store s) = (Inr False, st1)"
        and mb: "client_makeBucket client b st1 = (Inl e, st2)"
      for st1 e st2
    proof -
      have mb': "client_makeBucket client b (store (?s1 st1)) = (Inl e, st2)" using mb by simp
      note c = onModuleInit_create_make_fails [OF mb']
      show ?thesis
        using chk(1) [of "InternalServerErrorException
               (str ''There was an error while creating the storage bucket.'')"] chk(3) c
        unfolding onModuleInit_try_absent [OF be]
        by (simp add: newCalls_def)
    qed
    have policy_fails: "fst r = Inl (InternalServerErrorExceptionOf
                             (InternalServerErrorException
                                (str ''There was an error while applying the policy to the storage bucket.'')))
                   \<and> newCalls s (snd r)
                       = [BucketExists b, MakeBucket b, SetBucketPolicy b (bucketPolicy b)]"
      if be: "client_bucketExists client b (store s) = (Inr False, st1)"
        and mb: "client_makeBucket client b st1 = (Inr (), st2)"
        and sp: "client_setBucketPolicy client b (bucketPolicy b) st2 = (Inl e, st3)"
      for st1 st2 e st3
    proof -
      have mb': "client_makeBucket client b (store (?s1 st1)) = (Inr (), st2)" using mb by simp
      note c = onModuleInit_create_policy_fails [OF mb' sp]
      show ?thesis
        using chk(1) [of "InternalServerErrorException
               (str ''There was an error while applying the policy to the storage bucket.'')"] chk(3) c
        unfolding onModuleInit_try_absent [OF be]
        by (simp add: newCalls_def)
    qed
    note exists created check_fails make_fails policy_fails
  }
  note checked = this
  from skip checked bucketPolicy_text [of b] show ?thesis by blast
qed

theorem onModuleInit_provisions_the_bucket_witness:
  \<open>fst (onModuleInit memoryClient composeConfig (start noBuckets)) = Inr \<lparr>bucketName = str ''default''\<rparr>
   \<and> newCalls (start noBuckets) (snd (onModuleInit memoryClient composeConfig (start noBuckets)))
       = [BucketExists (str ''default''), MakeBucket (str ''default''),
          SetBucketPolicy (str ''default'') (bucketPolicy (str ''default''))]
   \<and> store (snd (onModuleInit memoryClient composeConfig (start noBuckets)))
       = \<lparr>buckets = [str ''default''],
          policies = [(str ''default'', bucketPolicy (str ''default''))],
          objects = []\<rparr>
   \<and> bucketPolicy (str ''default'') =
         str (''{"Version":"2012-10-17","Statement":[{"Sid":"PublicAccess","Effect":"Allow",''
              @ ''"Action":["s3:GetObject"],"Principal":{"AWS":["*"]},"Resource":[''
              @ ''"arn:aws:s3:::default/*/pictures/*","arn:aws:s3:::default/*/previews/*",''
              @ ''"arn:aws:s3:::default/*/resumes/*"]}]}'')
   \<and> newCalls (start emptyBucket) (snd (onModuleInit memoryClient composeConfig (start emptyBucket)))
       = [BucketExists (str ''default'')]
   \<and> snd (onModuleInit memoryClient (composeConfig\<lparr>STORAGE_SKIP_BUCKET_CHECK := Some True\<rparr>)
            (start noBuckets))
       = (start noBuckets)
           \<lparr>logs :=
              [Entry WARN (str ''Skipping the verification of whether the storage bucket exists.'') None,
               Entry WARN
                 (str ''Make sure that the following paths are publicly accessible: `/{pictures,previews,resumes}/*`'')
                 None]\<rparr>
   \<and> fst (onModuleInit (rejecting_bucketExists (StoreError (str ''ECONNREFUSED'')) memoryClient)
            composeConfig (start noBuckets))
       = Inl (InternalServerErrorExceptionOf (StoreError (str ''ECONNREFUSED'')))\<close>
proof -
  let ?b = "str ''default''"
  let ?st2 = "noBuckets\<lparr>buckets := [?b]\<rparr>"
  let ?st3 = "?st2\<lparr>policies := [(?b, bucketPolicy ?b)]\<rparr>"
  have nd: "36 \<notin> set ?b" by (simp add: str_def unit_of_char_def)
  have be0: "client_bucketExists memoryClient ?b (store (start noBuckets)) = (Inr False, noBuckets)"
    by (simp add: memory_eval)
  have mb: "client_makeBucket memoryClient ?b noBuckets = (Inr (), ?st2)"
    by (simp add: memory_eval)
  have sp: "client_setBucketPolicy memoryClient ?b (bucketPolicy ?b) ?st2 = (Inr (), ?st3)"
    by (simp add: memory_eval)
  have be1: "client_bucketExists memoryClient ?b (store (start emptyBucket)) = (Inr True, emptyBucket)"
    by (simp add: memory_eval)
  have be2: "client_bucketExists (rejecting_bucketExists (StoreError (str ''ECONNREFUSED'')) memoryClient)
               ?b (store (start noBuckets)) = (Inl (StoreError (str ''ECONNREFUSED'')), noBuckets)"
    by (simp add: rejecting_bucketExists_def)
  have skipped: "STORAGE_SKIP_BUCKET_CHECK (composeConfig\<lparr>STORAGE_SKIP_BUCKET_CHECK := Some True\<rparr>)
                 = Some True"
    and bucket': "STORAGE_BUCKET (composeConfig\<lparr>STORAGE_SKIP_BUCKET_CHECK := Some True\<rparr>) = Some ?b"
    by simp_all
  have st3: "?st3 = \<lparr>buckets = [?b], policies = [(?b, bucketPolicy ?b)], objects = []\<rparr>"
    by (simp add: noBuckets_def)
  note t = onModuleInit_provisions_the_bucket
  from t [OF example_simps(1), of memoryClient "start noBuckets"] be0 mb sp
  have a: "fst (onModuleInit memoryClient composeConfig (start noBuckets)) = Inr \<lparr>bucketName = ?b\<rparr>
     \<and> newCalls (start noBuckets) (snd (onModuleInit memoryClient composeConfig (start noBuckets)))
         = [BucketExists ?b, MakeBucket ?b, SetBucketPolicy ?b (bucketPolicy ?b)]
     \<and> store (snd (onModuleInit memoryClient composeConfig (start noBuckets))) = ?st3"
    by (simp only: example_simps(2); blast)
  from t [OF example_simps(1), of memoryClient "start noBuckets"] nd
  have d: \<open>bucketPolicy ?b =
         str (''{"Version":"2012-10-17","Statement":[{"Sid":"PublicAccess","Effect":"Allow",''
              @ ''"Action":["s3:GetObject"],"Principal":{"AWS":["*"]},"Resource":[''
              @ ''"arn:aws:s3:::default/*/pictures/*","arn:aws:s3:::default/*/previews/*",''
              @ ''"arn:aws:s3:::default/*/resumes/*"]}]}'')\<close>
    by (simp add: str_append)
  from t [OF example_simps(1), of memoryClient "start emptyBucket"] be1
  have e: "newCalls (start emptyBucket) (snd (onModuleInit memoryClient composeConfig (start emptyBucket)))
       = [BucketExists ?b]"
    by (simp only: example_simps(2); blast)
  from t [OF bucket', of memoryClient "start noBuckets"] skipped
  have f: "snd (onModuleInit memoryClient (composeConfig\<lparr>STORAGE_SKIP_BUCKET_CHECK := Some True\<rparr>)
            (start noBuckets))
       = (start noBuckets)
           \<lparr>logs :=
              [Entry WARN (str ''Skipping the verification of whether the storage bucket exists.'') None,
               Entry WARN
                 (str ''Make sure that the following paths are publicly accessible: `/{pictures,previews,resumes}/*`'')
                 None]\<rparr>"
    by simp
  from t [OF example_simps(1),
      of "rejecting_bucketExists (StoreError (str ''ECONNREFUSED'')) memoryClient" "start noBuckets"] be2
  have g: "fst (onModuleInit (rejecting_bucketExists (StoreError (str ''ECONNREFUSED'')) memoryClient)
            composeConfig (start noBuckets))
       = Inl (InternalServerErrorExceptionOf (StoreError (str ''ECONNREFUSED'')))"
    by (simp only: example_simps(2); blast)
  from a d e f g show ?thesis unfolding st3 by simp
qed

section \<open>Errors of the store\<close>

text \<open>
  C6 as amended. A rejected call of the store is raised again as an
  \<^verbatim>\<open>InternalServerErrorException\<close> by \<open>onModuleInit\<close> (the existence check, the creation, the
  policy), by \<open>uploadObject\<close> (the write), by \<open>deleteObject\<close> (the removal) and by
  \<open>deleteFolder\<close> (the bulk removal), the last three with the operation's fixed message; and
  these operations raise nothing else once their configuration is read, the file name is
  encoded and the listing has returned. But \<open>bucketExists\<close> rethrows the error of the client
  unchanged, and an error of the listing in \<open>deleteFolder\<close> reaches the caller unchanged.
  The counterexample is those two paths.
\<close>

theorem store_failures_by_operation:
  "(STORAGE_BUCKET configService = Some b \<and> STORAGE_SKIP_BUCKET_CHECK configService = Some skip
      \<longrightarrow> (\<forall>e. fst (onModuleInit client configService s) = Inl e \<longrightarrow> isInternalServerError e))
   \<and> (STORAGE_URL configService = Some storageUrl \<and> encodeURIComponent filename = Inr encodedFilename
      \<longrightarrow> (\<forall>e. fst (uploadObject client toBuffer configService this userId type buffer filename s) = Inl e
             \<longrightarrow> e = InternalServerErrorException (str ''There was an error while uploading the file.'')))
   \<and> (spec_objectPath userId type filename = Inr path
      \<longrightarrow> (\<forall>e. fst (deleteObject client this userId type filename s) = Inl e
             \<longrightarrow> e = InternalServerErrorException
                       (str ''There was an error while deleting the document at the specified path: ''
                        @ path @ str ''.'')))
   \<and> (\<forall>items st1. client_listObjectsV2 client (bucketName this) prefix True (store s) = (Inr items, st1)
      \<longrightarrow> (\<forall>e. fst (deleteFolder client this prefix s) = Inl e
             \<longrightarrow> e = InternalServerErrorException
                       (str ''There was an error while deleting the folder at the specified path: ''
                        @ bucketName this @ str ''/'' @ prefix @ str ''.'')))
   \<and> (\<forall>e st1. client_bucketExists client (bucketName this) (store s) = (Inl e, st1)
      \<longrightarrow> fst (bucketExists client this s) = Inl e)
   \<and> (\<forall>e st1. client_listObjectsV2 client (bucketName this) prefix True (store s) = (Inl e, st1)
      \<longrightarrow> fst (deleteFolder client this prefix s) = Inl e)
   \<and> (STORAGE_BUCKET configService = Some b \<and> STORAGE_SKIP_BUCKET_CHECK configService = Some False
      \<longrightarrow> (\<forall>e st1. client_bucketExists client b (store s) = (Inl e, st1)
             \<longrightarrow> fst (onModuleInit client configService s) = Inl (InternalServerErrorExceptionOf e))
        \<and> (\<forall>st1 e st2.
               client_bucketExists client b (store s) = (Inr False, st1)
               \<and> client_makeBucket client b st1 = (Inl e, st2)
             \<longrightarrow> fst (onModuleInit client configService s)
                 = Inl (InternalServerErrorExceptionOf
                         (InternalServerErrorException
                            (str ''There was an error while creating the storage bucket.''))))
        \<and> (\<forall>st1 st2 e st3.
               client_bucketExists client b (store s) = (Inr False, st1)
               \<and> client_makeBucket client b st1 = (Inr (), st2)
               \<and> client_setBucketPolicy client b (bucketPolicy b) st2 = (Inl e, st3)
             \<longrightarrow> fst (onModuleInit client configService s)
                 = Inl (InternalServerErrorExceptionOf
                         (InternalServerErrorException
                            (str ''There was an error while applying the policy to the storage bucket.'')))))
   \<and> (STORAGE_URL configService = Some storageUrl \<and> encodeURIComponent filename = Inr encodedFilename
        \<and> spec_objectPath userId type filename = Inr path
      \<longrightarrow> (\<forall>buffer' e st1.
             uploadObject_resize toBuffer (if type = resumes then str ''pdf'' else str ''jpg'') buffer
               = Inr buffer'
             \<and> client_putObject client (bucketName this) path buffer'
                   (objectMetadata type encodedFilename) (store s) = (Inl e, st1)
             \<longrightarrow> fst (uploadObject client toBuffer configService this userId type buffer filename s)
                 = Inl (InternalServerErrorException
                         (str ''There was an error while uploading the file.''))))
   \<and> (spec_objectPath userId type filename = Inr path
      \<longrightarrow> (\<forall>e st1. client_removeObject client (bucketName this) path (store s) = (Inl e, st1)
             \<longrightarrow> fst (deleteObject client this userId type filename s)
                 = Inl (InternalServerErrorException
                         (str ''There was an error while deleting the document at the specified path: ''
                          @ path @ str ''.''))))
   \<and> (\<forall>items st1 e st2.
        client_listObjectsV2 client (bucketName this) prefix True (store s) = (Inr items, st1)
        \<and> client_removeObjects client (bucketName this) (map name items) st1 = (Inl e, st2)
      \<longrightarrow> fst (deleteFolder client this prefix s)
          = Inl (InternalServerErrorException
                  (str ''There was an error while deleting the folder at the specified path: ''
                   @ bucketName this @ str ''/'' @ prefix @ str ''.'')))"
proof (intro conjI allI impI)
  fix e
  assume "STORAGE_BUCKET configService = Some b \<and> STORAGE_SKIP_BUCKET_CHECK configService = Some skip"
    and "fst (onModuleInit client configService s) = Inl e"
  then show "isInternalServerError e" using onModuleInit_errors by blast
next
  fix e
  assume "STORAGE_URL configService = Some storageUrl \<and> encodeURIComponent filename = Inr encodedFilename"
    and "fst (uploadObject client toBuffer configService this userId type buffer filename s) = Inl e"
  then show "e = InternalServerErrorException (str ''There was an error while uploading the file.'')"
    using uploadObject_errors by blast
next
  fix e
  assume "spec_objectPath userId type filename = Inr path"
    and "fst (deleteObject client this userId type filename s) = Inl e"
  then show "e = InternalServerErrorException
                       (str ''There was an error while deleting the document at the specified path: ''
                        @ path @ str ''.'')"
    by (rule deleteObject_errors)
next
  fix items st1 e
  assume "client_listObjectsV2 client (bucketName this) prefix True (store s) = (Inr items, st1)"
    and "fst (deleteFolder client this prefix s) = Inl e"
  then show "e = InternalServerErrorException
                       (str ''There was an error while deleting the folder at the specified path: ''
                        @ bucketName this @ str ''/'' @ prefix @ str ''.'')"
    by (rule deleteFolder_errors)
next
  fix e st1
  assume "client_bucketExists client (bucketName this) (store s) = (Inl e, st1)"
  then show "fst (bucketExists client this s) = Inl e" by (rule bucketExists_rejected)
next
  fix e st1
  assume "client_listObjectsV2 client (bucketName this) prefix True (store s) = (Inl e, st1)"
  then show "fst (deleteFolder client this prefix s) = Inl e" by (rule deleteFolder_list_fails(1))
next
  fix e st1
  assume c: "STORAGE_BUCKET configService = Some b \<and> STORAGE_SKIP_BUCKET_CHECK configService = Some False"
    and h: "client_bucketExists client b (store s) = (Inl e, st1)"
  show "fst (onModuleInit client configService s) = Inl (InternalServerErrorExceptionOf e)"
    by (rule onModuleInit_check_rejected [OF conjunct1 [OF c] conjunct2 [OF c] h])
next
  fix st1 e st2
  assume c: "STORAGE_BUCKET configService = Some b \<and> STORAGE_SKIP_BUCKET_CHECK configService = Some False"
    and h: "client_bucketExists client b (store s) = (Inr False, st1)
            \<and> client_makeBucket client b st1 = (Inl e, st2)"
  show "fst (onModuleInit client configService s)
                 = Inl (InternalServerErrorExceptionOf
                         (InternalServerErrorException
                            (str ''There was an error while creating the storage bucket.'')))"
    by (rule onModuleInit_make_rejected [OF conjunct1 [OF c] conjunct2 [OF c]
          conjunct1 [OF h] conjunct2 [OF h]])
next
  fix st1 st2 e st3
  assume c: "STORAGE_BUCKET configService = Some b \<and> STORAGE_SKIP_BUCKET_CHECK configService = Some False"
    and h: "client_bucketExists client b (store s) = (Inr False, st1)
               \<and> client_makeBucket client b st1 = (Inr (), st2)
               \<and> client_setBucketPolicy client b (bucketPolicy b) st2 = (Inl e, st3)"
  show "fst (onModuleInit client configService s)
                 = Inl (InternalServerErrorExceptionOf
                         (InternalServerErrorException
                            (str ''There was an error while applying the policy to the storage bucket.'')))"
    by (rule onModuleInit_policy_rejected [OF conjunct1 [OF c] conjunct2 [OF c]
          conjunct1 [OF h] conjunct1 [OF conjunct2 [OF h]] conjunct2 [OF conjunct2 [OF h]]])
next
  fix buffer' e st1
  assume c: "STORAGE_URL configService = Some storageUrl \<and> encodeURIComponent filename = Inr encodedFilename
        \<and> spec_objectPath userId type filename = Inr path"
    and h: "uploadObject_resize toBuffer (if type = resumes then str ''pdf'' else str ''jpg'') buffer
               = Inr buffer'
             \<and> client_putObject client (bucketName this) path buffer'
                   (objectMetadata type encodedFilename) (store s) = (Inl e, st1)"
  show "fst (uploadObject client toBuffer configService this userId type buffer filename s)
                 = Inl (InternalServerErrorException
                         (str ''There was an error while uploading the file.''))"
    by (rule uploadObject_put_rejected [OF conjunct1 [OF c] conjunct1 [OF conjunct2 [OF c]]
          conjunct2 [OF conjunct2 [OF c]] conjunct1 [OF h] conjunct2 [OF h]])
next
  fix e st1
  assume "spec_objectPath userId type filename = Inr path"
    and "client_removeObject client (bucketName this) path (store s) = (Inl e, st1)"
  then show "fst (deleteObject client this userId type filename s)
                 = Inl (InternalServerErrorException
                         (str ''There was an error while deleting the document at the specified path: ''
                          @ path @ str ''.''))"
    by (rule deleteObject_rejected(1))
next
  fix items st1 e st2
  assume h: "client_listObjectsV2 client (bucketName this) prefix True (store s) = (Inr items, st1)
        \<and> client_removeObjects client (bucketName this) (map name items) st1 = (Inl e, st2)"
  show "fst (deleteFolder client this prefix s)
          = Inl (InternalServerErrorException
                  (str ''There was an error while deleting the folder at the specified path: ''
                   @ bucketName this @ str ''/'' @ prefix @ str ''.''))"
    by (rule deleteFolder_removal_rejected [OF conjunct1 [OF h] conjunct2 [OF h]])
qed

theorem store_failures_by_operation_counterexample:
  "fst (bucketExists (rejecting_bucketExists (StoreError (str ''ECONNREFUSED'')) memoryClient)
          defaultService (start emptyBucket))
     = Inl (StoreError (str ''ECONNREFUSED''))
   \<and> fst (deleteFolder (rejecting_listObjectsV2 (StoreError (str ''ECONNREFUSED'')) memoryClient)
            defaultService (str ''u1'') (start emptyBucket))
     = Inl (StoreError (str ''ECONNREFUSED''))
   \<and> \<not> isInternalServerError (StoreError (str ''ECONNREFUSED''))"
  by (simp add: bucketExists_def bucketExists_try_def deleteFolder_def deleteFolder_list_def
      rejecting_bucketExists_def rejecting_listObjectsV2_def invoke_def logger_error_def)

theorem store_failures_by_operation_witness:
  "fst (deleteObject (rejecting_removeObject (StoreError (str ''ECONNREFUSED'')) memoryClient)
          defaultService (str ''u1'') resumes (str ''cv'') (start emptyBucket))
     = Inl (InternalServerErrorException
             (str ''There was an error while deleting the document at the specified path: u1/resumes/cv.pdf.''))
   \<and> fst (deleteFolder (rejecting_removeObjects (StoreError (str ''ECONNREFUSED'')) memoryClient)
            defaultService (str ''u1'') (start twoUsers))
     = Inl (InternalServerErrorException
             (str ''There was an error while deleting the folder at the specified path: default/u1.''))
   \<and> fst (onModuleInit (rejecting_bucketExists (StoreError (str ''ECONNREFUSED'')) memoryClient)
            composeConfig (start noBuckets))
     = Inl (InternalServerErrorExceptionOf (StoreError (str ''ECONNREFUSED'')))
   \<and> fst (bucketExists (rejecting_bucketExists (StoreError (str ''ECONNREFUSED'')) memoryClient)
            defaultService (start emptyBucket))
     = Inl (StoreError (str ''ECONNREFUSED''))
   \<and> fst (deleteFolder (rejecting_listObjectsV2 (StoreError (str ''ECONNREFUSED'')) memoryClient)
            defaultService (str ''u1'') (start emptyBucket))
     = Inl (StoreError (str ''ECONNREFUSED''))"
proof -
  let ?e = "StoreError (str ''ECONNREFUSED'')"
  let ?items = "[\<lparr>name = str ''u1/pictures/a.jpg'', size = 1\<rparr>,
                 \<lparr>name = str ''u1/resumes/cv.pdf'', size = 1\<rparr>]"
  have path: "spec_objectPath (str ''u1'') resumes (str ''cv'') = Inr (str ''u1/resumes/cv.pdf'')"
    by (simp add: spec_objectPath_def encode_examples str_append)
  have rm: "client_removeObject (rejecting_removeObject ?e memoryClient) (bucketName defaultService)
              (str ''u1/resumes/cv.pdf'') (store (start emptyBucket)) = (Inl ?e, emptyBucket)"
    by (simp add: rejecting_removeObject_def)
  have list: "client_listObjectsV2 (rejecting_removeObjects ?e memoryClient) (bucketName defaultService)
                (str ''u1'') True (store (start twoUsers)) = (Inr ?items, twoUsers)"
    by (simp add: rejecting_removeObjects_def memory_eval take_str)
  have rms: "client_removeObjects (rejecting_removeObjects ?e memoryClient) (bucketName defaultService)
               (map name ?items) twoUsers = (Inl ?e, twoUsers)"
    by (simp add: rejecting_removeObjects_def)
  have be0: "client_bucketExists (rejecting_bucketExists ?e memoryClient) (str ''default'')
               (store (start noBuckets)) = (Inl ?e, noBuckets)"
    by (simp add: rejecting_bucketExists_def)
  have be: "client_bucketExists (rejecting_bucketExists ?e memoryClient) (bucketName defaultService)
              (store (start emptyBucket)) = (Inl ?e, emptyBucket)"
    by (simp add: rejecting_bucketExists_def)
  have ls: "client_listObjectsV2 (rejecting_listObjectsV2 ?e memoryClient) (bucketName defaultService)
              (str ''u1'') True (store (start emptyBucket)) = (Inl ?e, emptyBucket)"
    by (simp add: rejecting_listObjectsV2_def)
  note t1 = store_failures_by_operation
  note t2 = t1 [THEN conjunct2]
  note t3 = t2 [THEN conjunct2]
  note t4 = t3 [THEN conjunct2]
  note t5 = t4 [THEN conjunct2]
  note t6 = t5 [THEN conjunct2]
  note t7 = t6 [THEN conjunct2]
  note t8 = t7 [THEN conjunct2]
  note t9 = t8 [THEN conjunct2]
  note t10 = t9 [THEN conjunct2]
  have a: "fst (deleteObject (rejecting_removeObject ?e memoryClient)
          defaultService (str ''u1'') resumes (str ''cv'') (start emptyBucket))
     = Inl (InternalServerErrorException
             (str ''There was an error while deleting the document at the specified path: ''
              @ str ''u1/resumes/cv.pdf'' @ str ''.''))"
    by (rule t9 [THEN conjunct1, THEN mp, OF path, THEN spec, THEN spec, THEN mp, OF rm])
  have b: "fst (deleteFolder (rejecting_removeObjects ?e memoryClient) defaultService (str ''u1'')
             (start twoUsers))
     = Inl (InternalServerErrorException
             (str ''There was an error while deleting the folder at the specified path: ''
              @ bucketName defaultService @ str ''/'' @ str ''u1'' @ str ''.''))"
    by (rule t10 [THEN spec, THEN spec, THEN spec, THEN spec, THEN mp, OF conjI [OF list rms]])
  have c: "fst (onModuleInit (rejecting_bucketExists ?e memoryClient) composeConfig (start noBuckets))
     = Inl (InternalServerErrorExceptionOf ?e)"
    by (rule t7 [THEN conjunct1, THEN mp, OF conjI [OF example_simps(1) example_simps(2)],
          THEN conjunct1, THEN spec, THEN spec, THEN mp, OF be0])
  have d: "fst (bucketExists (rejecting_bucketExists ?e memoryClient) defaultService (start emptyBucket))
           = Inl ?e"
    by (rule t5 [THEN conjunct1, THEN spec, THEN spec, THEN mp, OF be])
  have e: "fst (deleteFolder (rejecting_listObjectsV2 ?e memoryClient) defaultService (str ''u1'')
             (start emptyBucket)) = Inl ?e"
    by (rule t6 [THEN conjunct1, THEN spec, THEN spec, THEN mp, OF ls])
  from a b c d e show ?thesis by (simp add: str_append)
qed

section \<open>Image dimensions\<close>

text \<open>
  C1. The source asks the image library for \<^verbatim>\<open>fit: outside\<close> in a box of 600 by 600, which
  makes both dimensions at least 600, where its own comment says a maximum width and height
  of 600. Run on the store in memory with the executor of this theory, the upload of a
  2000 by 1000 image stores an image of 1200 by 600; and an image of 100 by 100 is
  enlarged to 600 by 600.
\<close>

theorem image_upload_exceeds_600_pixels:
  "objects (store (snd
     (uploadObject memoryClient (sharp_toBuffer headerCodec) composeConfig defaultService
        (str ''u1'') pictures [7, 208, 3, 232] (str ''avatar'') (start emptyBucket))))
   = [((str ''default'', str ''u1/pictures/avatar.jpg''), [4, 176, 2, 88],
       [(str ''Content-Type'', str ''image/jpeg'')])]
   \<and> headerDecode [7, 208, 3, 232] = Inr \<lparr>imageWidth = 2000, imageHeight = 1000\<rparr>
   \<and> headerDecode [4, 176, 2, 88] = Inr \<lparr>imageWidth = 1200, imageHeight = 600\<rparr>
   \<and> resizeImage \<lparr>width = 600, height = 600, fit = Outside\<rparr> \<lparr>imageWidth = 2000, imageHeight = 1000\<rparr>
     = \<lparr>imageWidth = 1200, imageHeight = 600\<rparr>
   \<and> resizeImage \<lparr>width = 600, height = 600, fit = Outside\<rparr> \<lparr>imageWidth = 100, imageHeight = 100\<rparr>
     = \<lparr>imageWidth = 600, imageHeight = 600\<rparr>"
  by (simp add: uploadObject_def uploadObject_try_def resize_example encode_examples
      memory_eval service_eval headerDecode_def resizeImage_def roundDiv_def)

end
